theory Spec2Isabelle
  imports Complex_Main "HOL-Library.Sublist"
begin

chapter \<open>The model\<close>

section \<open>Strings\<close>

text \<open>
  JavaScript strings are modelled as \<open>string\<close> (lists of 8-bit characters).
  \<open>toLowerCase\<close> is modelled on the ASCII letters: an upper-case letter (codes 65..90)
  gets bit 5 set, which adds 32 to its code; every other character is kept. JavaScript
  folds all of Unicode; the model agrees with it on ASCII text, and every string the
  matchers are run on below is ASCII.
  \<open>includes_str text k\<close> is \<open>text.includes(k)\<close>: \<open>k\<close> occurs in \<open>text\<close> as a
  contiguous substring (the empty keyword occurs in every text).
\<close>

fun toLowerCase_char :: "char \<Rightarrow> char" where
  "toLowerCase_char (Char b0 b1 b2 b3 b4 b5 b6 b7) =
     (let n = (of_char (Char b0 b1 b2 b3 b4 b5 b6 b7) :: nat)
      in if 65 \<le> n \<and> n \<le> 90 then Char b0 b1 b2 b3 b4 True b6 b7
         else Char b0 b1 b2 b3 b4 b5 b6 b7)"

definition toLowerCase :: "string \<Rightarrow> string" where
  "toLowerCase s = map toLowerCase_char s"

fun includes_str :: "string \<Rightarrow> string \<Rightarrow> bool" where
  "includes_str [] k = (k = [])"
| "includes_str (c # cs) k = (prefix k (c # cs) \<or> includes_str cs k)"

text \<open>\<open>texts.join(' ')\<close>\<close>

fun join_space :: "string list \<Rightarrow> string" where
  "join_space [] = []"
| "join_space [t] = t"
| "join_space (t # u # ts) = t @ '' '' @ join_space (u # ts)"

section \<open>Data model (types/index.ts)\<close>

text \<open>
  \<open>VideoInfo\<close>: the fields the core reads. \<open>id\<close> is named \<open>id_str\<close> here.
  Optional fields are options; \<open>author\<close> is a required string in the interface, and the
  code's truthiness tests on it (\<open>video.author || ''\<close>, \<open>if (video.author)\<close>) are tests for
  the empty string.
\<close>

record VideoInfo =
  id_str :: string
  title :: string
  author :: string
  url :: string
  duration :: "real option"
  tags :: "string list option"

datatype MatchMode = MatchAny | MatchAll

record MatcherConfig =
  keywords_list :: "string list"
  matchMode :: MatchMode
  caseSensitive :: bool

datatype Source = Home | Related | Short | Search

datatype error = Error string

section \<open>KeywordMatcher (matchers/keyword-matcher.ts)\<close>

definition prepareTextForMatching :: "MatcherConfig \<Rightarrow> VideoInfo \<Rightarrow> string" where
  "prepareTextForMatching cfg video =
     (let texts = [title video]
                  @ (if author video \<noteq> [] then [author video] else [])
                  @ (case tags video of
                       None \<Rightarrow> []
                     | Some ts \<Rightarrow> if length ts > 0 then ts else []);
          combinedText = join_space texts
      in if caseSensitive cfg then combinedText else toLowerCase combinedText)"

definition performMatching :: "MatcherConfig \<Rightarrow> string \<Rightarrow> bool" where
  "performMatching cfg str =
     (let kws = (if caseSensitive cfg then keywords_list cfg else map toLowerCase (keywords_list cfg))
      in case matchMode cfg of
           MatchAll \<Rightarrow> list_all (\<lambda>keyword. includes_str str keyword) kws
         | MatchAny \<Rightarrow> list_ex (\<lambda>keyword. includes_str str keyword) kws)"

definition match :: "MatcherConfig \<Rightarrow> VideoInfo \<Rightarrow> bool" where
  "match cfg video =
     (if length (keywords_list cfg) = 0 then False
      else performMatching cfg (prepareTextForMatching cfg video))"

section \<open>MatchService (services/match-service.ts)\<close>

text \<open>
  \<open>checkVideoMatch\<close>: the search text is the title, a space and the author, lower-cased
  unconditionally; each keyword is lower-cased unless \<open>caseSensitive\<close> is set; the keywords
  found are collected in configuration order.
\<close>

definition checkVideoMatch :: "MatcherConfig \<Rightarrow> VideoInfo \<Rightarrow> string list" where
  "checkVideoMatch cfg video =
     (let searchText = toLowerCase (title video @ '' '' @ author video);
          matchedKeywords =
            filter (\<lambda>keyword. includes_str searchText
                      (if caseSensitive cfg then keyword else toLowerCase keyword))
                   (keywords_list cfg)
      in if matchMode cfg = MatchAll
         then (if length matchedKeywords = length (keywords_list cfg) then matchedKeywords else [])
         else matchedKeywords)"

definition isVideoMatched :: "MatcherConfig \<Rightarrow> VideoInfo \<Rightarrow> bool" where
  "isVideoMatched cfg video = (length (checkVideoMatch cfg video) > 0)"

section \<open>BilibiliPlaybackSimulator (platforms/bilibili/bilibili-simulator.ts)\<close>

text \<open>
  JavaScript numbers are modelled as reals. What the platform answers and what
  \<open>Math.random()\<close> returns during one invocation is an explicit environment:
  every call that can throw has its outcome there, and the two random draws of
  \<open>simulatePlayback\<close> (each in \<open>[0, 1)\<close>) are fields of it.
\<close>

record BilibiliPlaybackSimulator =
  playbackSpeed :: real
  durationVariation :: real

text \<open>The constructor clamps the speed to 1..5 and the variation to 0..50 percent.\<close>

definition newSimulator :: "real \<Rightarrow> real \<Rightarrow> BilibiliPlaybackSimulator" where
  "newSimulator speed variation =
     \<lparr>playbackSpeed = max 1 (min speed 5), durationVariation = max 0 (min variation 50)\<rparr>"

text \<open>The object \<open>getVideoInfo\<close> builds from the platform's answer.\<close>

record BiliVideoInfo =
  aid :: nat
  bvid :: string
  cid :: nat
  bili_duration :: "real option"

record PlaybackEnv =
  visitVideoPage_result :: "error + unit"
  getVideoInfo_result :: "error + BiliVideoInfo"
  random_variation :: real
  random_buffer :: real
  heartbeat_result :: "error + unit"
  reportPlayHistory_result :: "error + unit"

text \<open>\<open>videoInfo.duration || 3600\<close>: a missing or zero duration is replaced by 3600.\<close>

definition actualVideoDuration :: "BiliVideoInfo \<Rightarrow> real" where
  "actualVideoDuration videoInfo =
     (case bili_duration videoInfo of
        None \<Rightarrow> 3600
      | Some d \<Rightarrow> if d = 0 then 3600 else d)"

text \<open>
  \<open>waitTime = actualWaitTime || Math.max(3, Math.ceil(simulatedDuration / playbackSpeed))\<close>;
  it paces the heartbeats and is not part of the returned value.
\<close>

definition waitTime :: "BilibiliPlaybackSimulator \<Rightarrow> real \<Rightarrow> real option \<Rightarrow> real" where
  "waitTime sim simulatedDuration actualWaitTime =
     (let calculatedWaitTime = of_int \<lceil>simulatedDuration / playbackSpeed sim\<rceil>;
          dflt = max 3 calculatedWaitTime
      in case actualWaitTime of
           None \<Rightarrow> dflt
         | Some w \<Rightarrow> if w = 0 then dflt else w)"

text \<open>
  The body of the \<open>try\<close> block of \<open>simulatePlayback\<close>: \<open>Inl\<close> is an exception
  thrown by one of the steps, \<open>Inr\<close> the value of \<open>safeSimulatedDuration\<close> returned.
\<close>

definition simulatePlayback_try ::
  "BilibiliPlaybackSimulator \<Rightarrow> PlaybackEnv \<Rightarrow> real \<Rightarrow> error + real" where
  "simulatePlayback_try sim env simulatedDuration =
     (case visitVideoPage_result env of
        Inl e \<Rightarrow> Inl e
      | Inr _ \<Rightarrow>
     (case getVideoInfo_result env of
        Inl e \<Rightarrow> Inl e
      | Inr videoInfo \<Rightarrow>
          let halfVariation = durationVariation sim / 100 / 2;
              randomVariation = (1 - halfVariation) + random_variation env * (halfVariation * 2);
              randomizedDuration = simulatedDuration * randomVariation;
              bufferTime = 1 + random_buffer env * 2;
              maxSafeSimulatedDuration = max 5 (actualVideoDuration videoInfo - bufferTime);
              safeSimulatedDuration = min randomizedDuration maxSafeSimulatedDuration
          in (case heartbeat_result env of
                Inl e \<Rightarrow> Inl e
              | Inr _ \<Rightarrow>
             (case reportPlayHistory_result env of
                Inl e \<Rightarrow> Inl e
              | Inr _ \<Rightarrow> Inr safeSimulatedDuration))))"

text \<open>\<open>simulatePlayback\<close>: the \<open>catch\<close> turns every exception into the value 0.\<close>

definition simulatePlayback ::
  "BilibiliPlaybackSimulator \<Rightarrow> PlaybackEnv \<Rightarrow> real \<Rightarrow> real" where
  "simulatePlayback sim env simulatedDuration =
     (case simulatePlayback_try sim env simulatedDuration of
        Inl _ \<Rightarrow> 0
      | Inr d \<Rightarrow> d)"

section \<open>HistoryService (services/history-service.ts)\<close>

text \<open>
  The history file is absent, or it holds lines. \<open>file_lines\<close> are its non-blank lines in
  order, as \<open>hasWatched\<close> splits them. A line is a record that \<open>JSON.parse\<close> gives back
  (the rendering of a record by \<open>JSON.stringify\<close> is taken to parse back to the same
  record), or a line on which parsing or the access \<open>record.video.id\<close> throws.
  \<open>unterminated\<close> says that the last of these lines is not followed by a newline (a file cut
  short by a crash, or edited by hand); a reader sees such a line like any other.

  \<open>recordWatch\<close> appends the bytes of the rendering and a newline, with no separator in
  front. After an unterminated line the rendering is therefore glued to that line. The
  glued line never parses: the rendering is a complete object that begins with an opening
  brace and the quoted key \<open>timestamp\<close> and ends the line, so whatever precedes it either
  is a complete value (and the rendering is trailing text), or leaves a container open that
  nothing closes, or leaves a string open that the rendering's first quote closes in front
  of a bare word.

  Durations measured with \<open>Date.now()\<close> are integers (milliseconds). The two calls into
  the file system that can throw, \<open>appendFileSync\<close> and \<open>readFileSync\<close>, have their
  outcome in the store: \<open>appendFails\<close> and \<open>readFails\<close>. \<open>updateStats\<close> writes a separate
  statistics file inside its own \<open>try\<close>/\<open>catch\<close> and never touches the history file; it is
  left out.
\<close>

record SimulatedData =
  isSimulated :: bool
  simulatedWatchDuration :: "real option"
  actualWaitTime :: "int option"
  sd_playbackSpeed :: "real option"

record WatchHistory =
  wh_timestamp :: string
  wh_video :: VideoInfo
  wh_playDuration :: int
  wh_matchedKeywords :: "string list"
  wh_source :: Source
  wh_sessionId :: string
  wh_platform :: string
  wh_isSimulated :: bool
  wh_simulatedWatchDuration :: "real option"
  wh_actualWaitTime :: "int option"
  wh_playbackSpeed :: "real option"

datatype HistoryLine = Parsed WatchHistory | Unparseable

record HistoryFile =
  file_lines :: "HistoryLine list"
  unterminated :: bool

record HistoryService =
  hs_platform :: string
  historyFile :: "HistoryFile option"
  appendFails :: bool
  readFails :: bool

definition watchRecord ::
  "HistoryService \<Rightarrow> string \<Rightarrow> VideoInfo \<Rightarrow> int \<Rightarrow> string list \<Rightarrow> Source \<Rightarrow> string
   \<Rightarrow> SimulatedData option \<Rightarrow> WatchHistory" where
  "watchRecord hs now video playDuration matchedKeywords source sessionId simulatedData =
     \<lparr>wh_timestamp = now,
      wh_video = video,
      wh_playDuration = playDuration,
      wh_matchedKeywords = matchedKeywords,
      wh_source = source,
      wh_sessionId = sessionId,
      wh_platform = hs_platform hs,
      wh_isSimulated = (case simulatedData of None \<Rightarrow> False | Some d \<Rightarrow> isSimulated d),
      wh_simulatedWatchDuration =
        (case simulatedData of None \<Rightarrow> None | Some d \<Rightarrow> simulatedWatchDuration d),
      wh_actualWaitTime = (case simulatedData of None \<Rightarrow> None | Some d \<Rightarrow> actualWaitTime d),
      wh_playbackSpeed = (case simulatedData of None \<Rightarrow> None | Some d \<Rightarrow> sd_playbackSpeed d)\<rparr>"

text \<open>
  \<open>appendFileSync\<close> of the rendering and a newline: an absent file is created with the
  one line; after an unterminated last line the rendering is glued to it and the two become
  one line that does not parse; otherwise the record is a new last line. In every case the
  file then ends with a newline.
\<close>

definition appendRecord :: "WatchHistory \<Rightarrow> HistoryFile option \<Rightarrow> HistoryFile" where
  "appendRecord rec f =
     (case f of
        None \<Rightarrow> \<lparr>file_lines = [Parsed rec], unterminated = False\<rparr>
      | Some c \<Rightarrow>
          if unterminated c \<and> file_lines c \<noteq> []
          then \<lparr>file_lines = butlast (file_lines c) @ [Unparseable], unterminated = False\<rparr>
          else \<lparr>file_lines = file_lines c @ [Parsed rec], unterminated = False\<rparr>)"

text \<open>
  \<open>recordWatch\<close>: build the record and append its rendering. When the append throws, the
  \<open>catch\<close> logs and nothing is recorded. \<open>now\<close> is the timestamp read from the clock.
\<close>

definition recordWatch ::
  "string \<Rightarrow> VideoInfo \<Rightarrow> int \<Rightarrow> string list \<Rightarrow> Source \<Rightarrow> string
   \<Rightarrow> SimulatedData option \<Rightarrow> HistoryService \<Rightarrow> HistoryService" where
  "recordWatch now video playDuration matchedKeywords source sessionId simulatedData hs =
     (let rec = watchRecord hs now video playDuration matchedKeywords source sessionId simulatedData
      in if appendFails hs then hs
         else hs\<lparr>historyFile := Some (appendRecord rec (historyFile hs))\<rparr>)"

fun line_has_id :: "string \<Rightarrow> HistoryLine \<Rightarrow> bool" where
  "line_has_id videoId (Parsed r) = (id_str (wh_video r) = videoId)"
| "line_has_id videoId Unparseable = False"

text \<open>
  \<open>hasWatched\<close>: false when the file is absent or reading it throws; otherwise whether
  some parseable line carries the id.
\<close>

definition hasWatched :: "HistoryService \<Rightarrow> string \<Rightarrow> bool" where
  "hasWatched hs videoId =
     (case historyFile hs of
        None \<Rightarrow> False
      | Some f \<Rightarrow>
          if readFails hs then False else list_ex (line_has_id videoId) (file_lines f))"

text \<open>
  The history file is absent or ends with a newline: the state every write of
  \<open>recordWatch\<close> leaves behind.
\<close>

definition endsWithNewline :: "HistoryService \<Rightarrow> bool" where
  "endsWithNewline hs =
     (case historyFile hs of
        None \<Rightarrow> True
      | Some f \<Rightarrow> file_lines f = [] \<or> \<not> unterminated f)"

section \<open>Configuration (types/index.ts, AppConfig)\<close>

text \<open>
  The options the core reads. An optional number is an option; \<open>x || d\<close> on it is
  \<open>js_or\<close>: the default replaces a missing value (or one that did not parse) and the
  value 0. Counts and sizes are natural numbers; negative settings are not represented.
\<close>

datatype Strategy = Random | Sequential | Weighted | OtherStrategy

record AppConfig =
  matcher :: MatcherConfig
  platformType :: string
  playDuration :: int
  enableActiveSearch :: bool
  activeSearchThreshold :: "nat option"
  activeSearchStrategy :: "Strategy option"
  maxVideosPerQueue :: "nat option"
  maxQueueSize :: "nat option"
  useSimulatedPlayback :: bool
  initialVideoSource :: "Source option"

definition js_or :: "nat option \<Rightarrow> nat \<Rightarrow> nat" where
  "js_or x d = (case x of None \<Rightarrow> d | Some n \<Rightarrow> if n = 0 then d else n)"

section \<open>ConcurrentPlayer (services/concurrent-player.ts)\<close>

text \<open>
  A task's id \<open>task-n\<close> is modelled by its number \<open>n\<close>. Tasks are objects shared between
  \<open>taskQueue\<close>, a player's \<open>currentTask\<close> and \<open>completedTasks\<close>; a worker holds a task
  by its position in \<open>taskQueue\<close>, which only grows, and a mutation of the task is an update
  at that position. \<open>completedTasks\<close> receives the task once no further mutation follows.
\<close>

datatype TaskStatus = Pending | Playing | Completed | Failed

record PlayTask =
  task_id :: nat
  task_video :: VideoInfo
  task_matchedKeywords :: "string list"
  task_source :: Source
  task_status :: TaskStatus
  task_startTime :: "int option"
  task_duration :: "int option"
  task_playerId :: "nat option"

record PlayerInstance =
  player_id :: nat
  isActive :: bool
  currentTask :: "nat option"

record ConcurrentPlayer =
  players :: "PlayerInstance list"
  taskQueue :: "PlayTask list"
  completedTasks :: "PlayTask list"
  taskIdCounter :: nat
  cp_isRunning :: bool

definition getVideoMatchedKeywords :: "MatcherConfig \<Rightarrow> VideoInfo \<Rightarrow> string list \<Rightarrow> string list" where
  "getVideoMatchedKeywords cfg video allKeywords =
     (let searchText = toLowerCase (title video @ '' '' @ author video)
      in filter (\<lambda>keyword. includes_str searchText
                   (if caseSensitive cfg then keyword else toLowerCase keyword))
                allKeywords)"

fun newTasks ::
  "MatcherConfig \<Rightarrow> nat \<Rightarrow> VideoInfo list \<Rightarrow> string list \<Rightarrow> Source \<Rightarrow> PlayTask list" where
  "newTasks cfg n [] matchedKeywords source = []"
| "newTasks cfg n (video # videos) matchedKeywords source =
     \<lparr>task_id = n + 1,
      task_video = video,
      task_matchedKeywords = getVideoMatchedKeywords cfg video matchedKeywords,
      task_source = source,
      task_status = Pending,
      task_startTime = None,
      task_duration = None,
      task_playerId = None\<rparr>
     # newTasks cfg (n + 1) videos matchedKeywords source"

text \<open>\<open>ConcurrentPlayer.addToQueue\<close>: one pending task per video, no filtering.\<close>

definition cp_addToQueue ::
  "AppConfig \<Rightarrow> VideoInfo list \<Rightarrow> string list \<Rightarrow> Source \<Rightarrow> ConcurrentPlayer \<Rightarrow> ConcurrentPlayer" where
  "cp_addToQueue config videos matchedKeywords source cp =
     cp\<lparr>taskQueue := taskQueue cp
                       @ newTasks (matcher config) (taskIdCounter cp) videos matchedKeywords source,
        taskIdCounter := taskIdCounter cp + length videos\<rparr>"

text \<open>\<open>getNextTask\<close>: the first pending task, marked \<open>playing\<close>; its position is returned.\<close>

fun find_pending :: "PlayTask list \<Rightarrow> nat option" where
  "find_pending [] = None"
| "find_pending (t # ts) =
     (if task_status t = Pending then Some 0
      else map_option Suc (find_pending ts))"

definition getNextTask :: "ConcurrentPlayer \<Rightarrow> nat option \<times> ConcurrentPlayer" where
  "getNextTask cp =
     (case find_pending (taskQueue cp) of
        None \<Rightarrow> (None, cp)
      | Some i \<Rightarrow>
          (Some i, cp\<lparr>taskQueue := (taskQueue cp)[i := (taskQueue cp ! i)\<lparr>task_status := Playing\<rparr>]\<rparr>))"

text \<open>
  What one run of \<open>executeTask\<close> meets: the outcome of \<open>platform.playVideo\<close> followed by
  the wait for \<open>playDuration\<close> (\<open>Inl\<close>: an exception), the two readings of \<open>Date.now()\<close>
  (at the start, and when the duration is computed), and the timestamp of the record.
\<close>

record TaskEnv =
  play_result :: "error + unit"
  startTime :: int
  endTime :: int
  timestamp :: string

definition set_player :: "nat \<Rightarrow> bool \<Rightarrow> nat option \<Rightarrow> ConcurrentPlayer \<Rightarrow> ConcurrentPlayer" where
  "set_player p active task cp =
     cp\<lparr>players := (players cp)[p := (players cp ! p)\<lparr>isActive := active, currentTask := task\<rparr>]\<rparr>"

definition update_task :: "nat \<Rightarrow> (PlayTask \<Rightarrow> PlayTask) \<Rightarrow> ConcurrentPlayer \<Rightarrow> ConcurrentPlayer" where
  "update_task i f cp = cp\<lparr>taskQueue := (taskQueue cp)[i := f (taskQueue cp ! i)]\<rparr>"

text \<open>
  \<open>executeTask\<close> for the player at position \<open>p\<close> and the task at position \<open>i\<close>
  (both in range: the worker got them from \<open>players\<close> and \<open>getNextTask\<close>). The \<open>catch\<close>
  handler calls only the logger and \<open>recordWatch\<close>, which catches its own exceptions, and
  the \<open>finally\<close> block only assigns: the function always returns.
\<close>

definition executeTask ::
  "string \<Rightarrow> TaskEnv \<Rightarrow> nat \<Rightarrow> nat \<Rightarrow> HistoryService \<times> ConcurrentPlayer
   \<Rightarrow> HistoryService \<times> ConcurrentPlayer" where
  "executeTask sessionId env p i state =
     (let hs = fst state;
          cp0 = snd state;
          pid = player_id (players cp0 ! p);
          cp1 = update_task i (\<lambda>t. t\<lparr>task_playerId := Some pid,
                                       task_startTime := Some (startTime env)\<rparr>)
                  (set_player p True (Some i) cp0);
          actualDuration = endTime env - startTime env;
          task = taskQueue cp1 ! i;
          (hs2, cp2) =
            (case play_result env of
               Inr _ \<Rightarrow>
                 (recordWatch (timestamp env) (task_video task) actualDuration
                    (task_matchedKeywords task) (task_source task) sessionId None hs,
                  update_task i (\<lambda>t. t\<lparr>task_duration := Some actualDuration,
                                         task_status := Completed\<rparr>) cp1)
             | Inl _ \<Rightarrow>
                 (if actualDuration > 1000
                  then recordWatch (timestamp env) (task_video task) actualDuration
                         (task_matchedKeywords task) (task_source task) sessionId None hs
                  else hs,
                  update_task i (\<lambda>t. t\<lparr>task_duration := Some actualDuration,
                                         task_status := Failed\<rparr>) cp1));
          cp3 = set_player p False None cp2
      in (hs2, cp3\<lparr>completedTasks := completedTasks cp3 @ [taskQueue cp3 ! i]\<rparr>))"

text \<open>
  One iteration of the loop of \<open>playerWorker\<close> for the player at position \<open>p\<close>: no
  pending task (the worker sleeps), a task whose video is already watched (marked
  \<open>completed\<close> and moved on, nothing played, nothing recorded), or \<open>executeTask\<close>.
\<close>

definition playerWorker_step ::
  "string \<Rightarrow> TaskEnv \<Rightarrow> nat \<Rightarrow> HistoryService \<times> ConcurrentPlayer
   \<Rightarrow> HistoryService \<times> ConcurrentPlayer" where
  "playerWorker_step sessionId env p state =
     (let hs = fst state;
          (next, cp1) = getNextTask (snd state)
      in case next of
           None \<Rightarrow> (hs, cp1)
         | Some i \<Rightarrow>
             if hasWatched hs (id_str (task_video (taskQueue cp1 ! i)))
             then (let cp2 = update_task i (\<lambda>t. t\<lparr>task_status := Completed\<rparr>) cp1
                   in (hs, cp2\<lparr>completedTasks := completedTasks cp2 @ [taskQueue cp2 ! i]\<rparr>))
             else executeTask sessionId env p i (hs, cp1))"

section \<open>SimulatedPlaybackManager (services/simulated-playback-manager.ts)\<close>

record SimulatedPlaybackConfig =
  spc_playbackSpeed :: real
  watchDuration :: real
  minWaitTime :: real
  spc_platform :: string
  cookies :: string
  spc_concurrentWorkers :: "nat option"
  spc_durationVariation :: "real option"

text \<open>
  \<open>pendingStarts\<close> counts the \<open>startProcessing\<close> callbacks that \<open>addToQueue\<close> has handed
  to \<open>setImmediate\<close>. \<open>activeWorkers\<close> is an integer: the code decrements it without a
  lower bound.
\<close>

record SimulatedPlaybackManager =
  spm_config :: SimulatedPlaybackConfig
  simulators :: "BilibiliPlaybackSimulator list"
  isProcessing :: bool
  currentVideoSource :: Source
  spm_sessionId :: string
  concurrentWorkers :: nat
  activeWorkers :: int
  spm_videoQueue :: "(VideoInfo \<times> Source) list"
  pendingStarts :: nat

definition initializeSimulators :: "SimulatedPlaybackManager \<Rightarrow> SimulatedPlaybackManager" where
  "initializeSimulators m =
     (if spc_platform (spm_config m) = ''bilibili'' \<and> cookies (spm_config m) \<noteq> []
      then m\<lparr>simulators := simulators m
                @ replicate (concurrentWorkers m)
                    (newSimulator (spc_playbackSpeed (spm_config m))
                       (case spc_durationVariation (spm_config m) of
                          None \<Rightarrow> 5
                        | Some v \<Rightarrow> if v = 0 then 5 else v))\<rparr>
      else m)"

definition newSimulatedPlaybackManager ::
  "SimulatedPlaybackConfig \<Rightarrow> string \<Rightarrow> SimulatedPlaybackManager" where
  "newSimulatedPlaybackManager config sid =
     initializeSimulators
       \<lparr>spm_config = config,
        simulators = [],
        isProcessing = False,
        currentVideoSource = Home,
        spm_sessionId = sid,
        concurrentWorkers = max 1 (min (js_or (spc_concurrentWorkers config) 1) 10),
        activeWorkers = 0,
        spm_videoQueue = [],
        pendingStarts = 0\<rparr>"

text \<open>
  \<open>SimulatedPlaybackManager.addToQueue\<close>: each video of the batch is tested against the
  history and against the queue as it is before the call; the survivors are appended with
  the source, and a start of the processing loop is scheduled when it is not running.
\<close>

definition spm_addToQueue ::
  "HistoryService \<Rightarrow> VideoInfo list \<Rightarrow> Source option \<Rightarrow> SimulatedPlaybackManager
   \<Rightarrow> SimulatedPlaybackManager" where
  "spm_addToQueue hs videos source m =
     (let sourceToUse = (case source of None \<Rightarrow> currentVideoSource m | Some s \<Rightarrow> s);
          newVideos =
            filter (\<lambda>video.
                      if hasWatched hs (id_str video) then False
                      else if list_ex (\<lambda>queuedVideo. id_str (fst queuedVideo) = id_str video)
                                (spm_videoQueue m) then False
                      else True)
                   videos
      in if length newVideos > 0
         then m\<lparr>spm_videoQueue := spm_videoQueue m @ map (\<lambda>video. (video, sourceToUse)) newVideos,
                pendingStarts := (if isProcessing m then pendingStarts m
                                  else pendingStarts m + 1)\<rparr>
         else m)"

text \<open>
  One iteration of the processing loop of \<open>startProcessing\<close> together with
  \<open>processVideoAsync\<close>: when the loop runs, the queue is not empty and a worker is free,
  the head of the queue is taken and handed to a worker (\<open>activeWorkers\<close> goes up by one;
  the simulator is invoked at once). The result names the item dispatched and its worker,
  \<open>activeWorkers % concurrentWorkers\<close> (\<open>js_rem\<close>: the remainder has the sign of the
  dividend).
\<close>

definition js_rem :: "int \<Rightarrow> int \<Rightarrow> int" where
  "js_rem a b = (if a \<ge> 0 then a mod b else - ((- a) mod b))"

definition processingLoop_step ::
  "SimulatedPlaybackManager \<Rightarrow> ((VideoInfo \<times> Source) \<times> int) option \<times> SimulatedPlaybackManager" where
  "processingLoop_step m =
     (if \<not> isProcessing m then (None, m)
      else case spm_videoQueue m of
             [] \<Rightarrow> (None, m)
           | videoItem # rest \<Rightarrow>
               if activeWorkers m \<ge> int (concurrentWorkers m) then (None, m)
               else (Some (videoItem, js_rem (activeWorkers m) (int (concurrentWorkers m))),
                     m\<lparr>spm_videoQueue := rest, activeWorkers := activeWorkers m + 1\<rparr>))"

text \<open>
  What one run of \<open>processVideoWithSource\<close> meets: the environment of the simulator's
  invocation, the two readings of \<open>Date.now()\<close>, and the timestamp of the record.
\<close>

record WorkerEnv =
  playback :: PlaybackEnv
  w_startTime :: int
  w_endTime :: int
  w_timestamp :: string

text \<open>
  \<open>processVideoWithSource\<close>: \<open>simulatePlayback\<close> never throws (a failed sequence gives
  0), and the session is recorded whatever it returned. A worker without a simulator
  (\<open>this.simulators[workerId]\<close> undefined) throws inside the \<open>try\<close> and records nothing.
  The result is the returned flag and the store.
\<close>

definition processVideoWithSource ::
  "MatcherConfig \<Rightarrow> WorkerEnv \<Rightarrow> VideoInfo \<Rightarrow> BilibiliPlaybackSimulator option \<Rightarrow> Source
   \<Rightarrow> SimulatedPlaybackManager \<Rightarrow> HistoryService \<Rightarrow> bool \<times> HistoryService" where
  "processVideoWithSource matcherConfig env video simulator source m hs =
     (case simulator of
        None \<Rightarrow> (False, hs)
      | Some sim \<Rightarrow>
          let actualSimulatedDuration =
                simulatePlayback sim (playback env) (watchDuration (spm_config m));
              elapsed = w_endTime env - w_startTime env;
              matchedKeywords = checkVideoMatch matcherConfig video
          in (True,
              recordWatch (w_timestamp env) video elapsed matchedKeywords source (spm_sessionId m)
                (Some \<lparr>isSimulated = True,
                       simulatedWatchDuration = Some actualSimulatedDuration,
                       actualWaitTime = Some elapsed,
                       sd_playbackSpeed = Some (spc_playbackSpeed (spm_config m))\<rparr>)
                hs))"

text \<open>The \<open>finally\<close> of \<open>processVideoAsync\<close>: the worker is released.\<close>

definition releaseWorker :: "SimulatedPlaybackManager \<Rightarrow> SimulatedPlaybackManager" where
  "releaseWorker m = m\<lparr>activeWorkers := activeWorkers m - 1\<rparr>"

text \<open>
  A scheduled \<open>startProcessing\<close> callback runs: it switches the loop on unless it is
  already running or no simulator exists.
\<close>

definition startProcessing :: "SimulatedPlaybackManager \<Rightarrow> SimulatedPlaybackManager" where
  "startProcessing m =
     (let m1 = m\<lparr>pendingStarts := pendingStarts m - 1\<rparr>
      in if isProcessing m1 then m1
         else if length (simulators m1) = 0 then m1
         else m1\<lparr>isProcessing := True\<rparr>)"

section \<open>AlgorithmFeeder (core/feeder.ts)\<close>

text \<open>
  What the platform and the clock answer during one cycle of the feeding loop:
  the result of \<open>getRecommendedVideos\<close>; \<open>searchVideos\<close>, absent when the platform has no
  such method; the platform's \<open>getCurrentVideoSource\<close>, absent likewise; the value of
  \<open>Math.random()\<close> used to pick a keyword; for the k-th call of \<open>playVideo\<close> made by the
  feeder (counted from 0 over the whole run) its outcome and the elapsed milliseconds that
  \<open>playTargetVideo\<close> measures; and the timestamp for records.
\<close>

record PlatformEnv =
  getRecommendedVideos_result :: "error + VideoInfo list"
  searchVideos :: "(string \<Rightarrow> error + VideoInfo list) option"
  getCurrentVideoSource :: "Source option"
  math_random :: real
  playVideo_result :: "nat \<Rightarrow> VideoInfo \<Rightarrow> error + unit"
  elapsed_ms :: "nat \<Rightarrow> int"
  clock_timestamp :: string

text \<open>
  The feeder's state. The history service is one object shared with the player and the
  manager; it is held here and passed to them. \<open>playVideo_calls\<close> is the trace of the calls
  \<open>platform.playVideo(video)\<close> the feeder has made, in order.
\<close>

record AlgorithmFeeder =
  historyService :: HistoryService
  concurrentPlayer :: "ConcurrentPlayer option"
  simulatedPlaybackManager :: "SimulatedPlaybackManager option"
  isRunning :: bool
  sessionId :: string
  missedRounds :: nat
  keywordIndex :: nat
  videoQueue :: "VideoInfo list"
  playVideo_calls :: "VideoInfo list"

definition getMatchedKeywords :: "AppConfig \<Rightarrow> VideoInfo \<Rightarrow> string list" where
  "getMatchedKeywords config video =
     (let searchText = toLowerCase (title video @ '' '' @ author video)
      in filter (\<lambda>keyword. includes_str searchText
                   (if caseSensitive (matcher config) then keyword else toLowerCase keyword))
                (keywords_list (matcher config)))"

definition feeder_getCurrentVideoSource :: "AppConfig \<Rightarrow> PlatformEnv \<Rightarrow> Source" where
  "feeder_getCurrentVideoSource config env =
     (case getCurrentVideoSource env of
        Some s \<Rightarrow> s
      | None \<Rightarrow> (case initialVideoSource config of None \<Rightarrow> Home | Some s \<Rightarrow> s))"

text \<open>
  \<open>playTargetVideo\<close>: the video is played without consulting the history. On success the
  session is recorded; when \<open>playVideo\<close> throws, it is recorded only if more than 1000 ms
  have elapsed. An empty search keyword is falsy and gives the matched keywords instead.
\<close>

definition playTargetVideo ::
  "AppConfig \<Rightarrow> PlatformEnv \<Rightarrow> VideoInfo \<Rightarrow> string option \<Rightarrow> Source
   \<Rightarrow> AlgorithmFeeder \<Rightarrow> AlgorithmFeeder" where
  "playTargetVideo config env video searchKeyword source st =
     (let k = length (playVideo_calls st);
          st1 = st\<lparr>playVideo_calls := playVideo_calls st @ [video]\<rparr>;
          actualPlayDuration = elapsed_ms env k;
          matchedKeywords =
            (case searchKeyword of
               None \<Rightarrow> getMatchedKeywords config video
             | Some kw \<Rightarrow> if kw = [] then getMatchedKeywords config video else [kw]);
          recorded = st1\<lparr>historyService :=
                           recordWatch (clock_timestamp env) video actualPlayDuration
                             matchedKeywords source (sessionId st) None (historyService st)\<rparr>
      in case playVideo_result env k video of
           Inr _ \<Rightarrow> recorded
         | Inl _ \<Rightarrow> if actualPlayDuration > 1000 then recorded else st1)"

text \<open>
  \<open>processVideoQueue\<close>: while the queue is not empty and the feeder runs, take the head;
  skip it when it is already watched, play it otherwise.
\<close>

fun processVideos ::
  "AppConfig \<Rightarrow> PlatformEnv \<Rightarrow> VideoInfo list \<Rightarrow> AlgorithmFeeder \<Rightarrow> AlgorithmFeeder" where
  "processVideos config env [] st = st\<lparr>videoQueue := []\<rparr>"
| "processVideos config env (video # rest) st =
     (if \<not> isRunning st then st\<lparr>videoQueue := video # rest\<rparr>
      else let st1 = st\<lparr>videoQueue := rest\<rparr>
           in processVideos config env rest
                (if hasWatched (historyService st1) (id_str video) then st1
                 else playTargetVideo config env video None Home st1))"

definition processVideoQueue :: "AppConfig \<Rightarrow> PlatformEnv \<Rightarrow> AlgorithmFeeder \<Rightarrow> AlgorithmFeeder" where
  "processVideoQueue config env st = processVideos config env (videoQueue st) st"

text \<open>
  \<open>selectSearchKeyword\<close>: \<open>None\<close> is \<open>null\<close> or \<open>undefined\<close> (an index out of range).
\<close>

definition nth_opt :: "'a list \<Rightarrow> nat \<Rightarrow> 'a option" where
  "nth_opt xs i = (if i < length xs then Some (xs ! i) else None)"

definition selectSearchKeyword ::
  "AppConfig \<Rightarrow> PlatformEnv \<Rightarrow> AlgorithmFeeder \<Rightarrow> string option \<times> AlgorithmFeeder" where
  "selectSearchKeyword config env st =
     (let kws = keywords_list (matcher config);
          randomPick = nth_opt kws (nat \<lfloor>math_random env * real (length kws)\<rfloor>)
      in if length kws = 0 then (None, st)
         else case (case activeSearchStrategy config of None \<Rightarrow> Random | Some s \<Rightarrow> s) of
                Random \<Rightarrow> (randomPick, st)
              | Sequential \<Rightarrow>
                  (nth_opt kws (keywordIndex st mod length kws),
                   st\<lparr>keywordIndex := keywordIndex st + 1\<rparr>)
              | Weighted \<Rightarrow> (randomPick, st)
              | OtherStrategy \<Rightarrow> (nth_opt kws 0, st))"


text \<open>
  \<open>performActiveSearch\<close>: the flag returned and the state. Every exception inside
  (the search call is the one that can throw) is caught and gives \<open>false\<close>; the
  keyword index advanced by \<open>selectSearchKeyword\<close> stays advanced.
\<close>

definition performActiveSearch ::
  "AppConfig \<Rightarrow> PlatformEnv \<Rightarrow> AlgorithmFeeder \<Rightarrow> bool \<times> AlgorithmFeeder" where
  "performActiveSearch config env st =
     (case searchVideos env of
        None \<Rightarrow> (False, st)
      | Some search \<Rightarrow>
          let (keyword, st1) = selectSearchKeyword config env st
          in case keyword of
               None \<Rightarrow> (False, st1)
             | Some kw \<Rightarrow>
                 if kw = [] then (False, st1)
                 else case search kw of
                        Inl _ \<Rightarrow> (False, st1)
                      | Inr searchResults \<Rightarrow>
                         (case searchResults of
                            [] \<Rightarrow> (False, st1)
                          | firstVideo # _ \<Rightarrow>
                              let targetVideos = filter (match (matcher config)) searchResults
                              in case targetVideos of
                                   [] \<Rightarrow>
                                     (case simulatedPlaybackManager st1 of
                                        Some m \<Rightarrow>
                                          (True, st1\<lparr>simulatedPlaybackManager :=
                                             Some (spm_addToQueue (historyService st1)
                                                     [firstVideo] (Some Search) m)\<rparr>)
                                      | None \<Rightarrow>
                                     (case concurrentPlayer st1 of
                                        Some cp \<Rightarrow>
                                          (True, st1\<lparr>concurrentPlayer :=
                                             Some (cp_addToQueue config [firstVideo] [kw] Search cp)\<rparr>)
                                      | None \<Rightarrow>
                                          (True, playTargetVideo config env firstVideo (Some kw)
                                                   Search st1)))
                                 | selectedVideo # _ \<Rightarrow>
                                     (case simulatedPlaybackManager st1 of
                                        Some m \<Rightarrow>
                                          (True, st1\<lparr>simulatedPlaybackManager :=
                                             Some (spm_addToQueue (historyService st1)
                                                     targetVideos (Some Search) m)\<rparr>)
                                      | None \<Rightarrow>
                                     (case concurrentPlayer st1 of
                                        Some cp \<Rightarrow>
                                          (True, st1\<lparr>concurrentPlayer :=
                                             Some (cp_addToQueue config targetVideos
                                                     (keywords_list (matcher config)) Search cp)\<rparr>)
                                      | None \<Rightarrow>
                                          (True, playTargetVideo config env selectedVideo (Some kw)
                                                   Search st1)))))"

definition checkActiveSearch :: "AppConfig \<Rightarrow> PlatformEnv \<Rightarrow> AlgorithmFeeder \<Rightarrow> AlgorithmFeeder" where
  "checkActiveSearch config env st =
     (if \<not> enableActiveSearch config then st
      else let threshold = js_or (activeSearchThreshold config) 10
           in if missedRounds st \<ge> threshold
              then (let (success, st1) = performActiveSearch config env st
                    in if success then st1\<lparr>missedRounds := 0\<rparr>
                       else st1\<lparr>missedRounds := missedRounds st1 div 2\<rparr>)
              else st)"

text \<open>
  One iteration of the loop of \<open>feedingLoop\<close> (the sleeps left out). An exception of
  \<open>getRecommendedVideos\<close> is caught by the loop and leaves the state as it is. The capacity
  test reads the feeder's own \<open>videoQueue\<close>.
\<close>

definition feedingCycle :: "AppConfig \<Rightarrow> PlatformEnv \<Rightarrow> AlgorithmFeeder \<Rightarrow> AlgorithmFeeder" where
  "feedingCycle config env st =
     (case getRecommendedVideos_result env of
        Inl _ \<Rightarrow> st
      | Inr videos \<Rightarrow>
          if length (videoQueue st) \<ge> js_or (maxQueueSize config) 20 then st
          else let targetVideos = filter (match (matcher config)) videos
               in if length targetVideos > 0
                  then (let videosToAdd = take (js_or (maxVideosPerQueue config) 5) targetVideos;
                            st1 = st\<lparr>missedRounds := 0\<rparr>
                        in case simulatedPlaybackManager st1 of
                             Some m \<Rightarrow>
                               st1\<lparr>simulatedPlaybackManager :=
                                     Some (spm_addToQueue (historyService st1) videosToAdd
                                             (Some (feeder_getCurrentVideoSource config env)) m)\<rparr>
                           | None \<Rightarrow>
                          (case concurrentPlayer st1 of
                             Some cp \<Rightarrow>
                               st1\<lparr>concurrentPlayer :=
                                     Some (cp_addToQueue config videosToAdd
                                             (keywords_list (matcher config))
                                             (feeder_getCurrentVideoSource config env) cp)\<rparr>
                           | None \<Rightarrow>
                               processVideoQueue config env
                                 (st1\<lparr>videoQueue := videoQueue st1
                                        @ filter (\<lambda>video. \<not> hasWatched (historyService st1)
                                                              (id_str video))
                                            videosToAdd\<rparr>)))
                  else checkActiveSearch config env (st\<lparr>missedRounds := missedRounds st + 1\<rparr>))"

section \<open>Example inputs\<close>

text \<open>Concrete videos, configurations, stores and environments used to run the model.\<close>

definition video_of :: "string \<Rightarrow> string \<Rightarrow> VideoInfo" where
  "video_of i t = \<lparr>id_str = i, title = t, author = ''bob'', url = '''',
                    duration = None, tags = None\<rparr>"

definition cat_matcher :: MatcherConfig where
  "cat_matcher = \<lparr>keywords_list = [''cat''], matchMode = MatchAny, caseSensitive = False\<rparr>"

definition example_config :: AppConfig where
  "example_config =
     \<lparr>matcher = cat_matcher, platformType = ''bilibili'', playDuration = 30000,
      enableActiveSearch = True, activeSearchThreshold = Some 10,
      activeSearchStrategy = Some Sequential, maxVideosPerQueue = Some 5,
      maxQueueSize = Some 2, useSimulatedPlayback = False, initialVideoSource = Some Home\<rparr>"

definition empty_history :: HistoryService where
  "empty_history = \<lparr>hs_platform = ''bilibili'', historyFile = None,
                     appendFails = False, readFails = False\<rparr>"

text \<open>A platform that recommends \<open>videos\<close>, answers every search with \<open>results\<close>, and on
  which every playback succeeds after 30 seconds.\<close>

definition platform_env :: "VideoInfo list \<Rightarrow> VideoInfo list \<Rightarrow> PlatformEnv" where
  "platform_env videos results =
     \<lparr>getRecommendedVideos_result = Inr videos,
      searchVideos = Some (\<lambda>kw. Inr results),
      getCurrentVideoSource = Some Home,
      math_random = 0,
      playVideo_result = (\<lambda>k v. Inr ()),
      elapsed_ms = (\<lambda>k. 30000),
      clock_timestamp = ''2025-01-01T00:00:00.000Z''\<rparr>"

text \<open>A feeder in single-player mode (neither manager nor concurrent player).\<close>

definition single_feeder :: "HistoryService \<Rightarrow> nat \<Rightarrow> AlgorithmFeeder" where
  "single_feeder hs missed =
     \<lparr>historyService = hs, concurrentPlayer = None, simulatedPlaybackManager = None,
      isRunning = True, sessionId = ''session-1'', missedRounds = missed, keywordIndex = 0,
      videoQueue = [], playVideo_calls = []\<rparr>"

text \<open>A manager for two workers with an empty queue, and a feeder in simulated mode.\<close>

definition example_manager :: SimulatedPlaybackManager where
  "example_manager =
     newSimulatedPlaybackManager
       \<lparr>spc_playbackSpeed = 2, watchDuration = 30, minWaitTime = 5,
        spc_platform = ''bilibili'', cookies = ''SESSDATA=x'',
        spc_concurrentWorkers = Some 2, spc_durationVariation = Some 5\<rparr>
       ''session-1''"

definition simulated_feeder :: "HistoryService \<Rightarrow> nat \<Rightarrow> AlgorithmFeeder" where
  "simulated_feeder hs missed =
     (single_feeder hs missed)\<lparr>simulatedPlaybackManager := Some example_manager\<rparr>"

text \<open>Observers of the feeder's back end: the manager's queue and the player's tasks.\<close>

definition managerQueue :: "AlgorithmFeeder \<Rightarrow> (VideoInfo \<times> Source) list" where
  "managerQueue st =
     (case simulatedPlaybackManager st of None \<Rightarrow> [] | Some m \<Rightarrow> spm_videoQueue m)"

definition playerTasks :: "AlgorithmFeeder \<Rightarrow> PlayTask list" where
  "playerTasks st = (case concurrentPlayer st of None \<Rightarrow> [] | Some cp \<Rightarrow> taskQueue cp)"

text \<open>A step of the manager, taken on the manager the feeder holds.\<close>

definition with_manager ::
  "(SimulatedPlaybackManager \<Rightarrow> SimulatedPlaybackManager) \<Rightarrow> AlgorithmFeeder \<Rightarrow> AlgorithmFeeder" where
  "with_manager f st =
     st\<lparr>simulatedPlaybackManager := map_option f (simulatedPlaybackManager st)\<rparr>"

text \<open>The processing loop started and run until no worker is free or the queue is empty
  (two iterations suffice for two workers).\<close>

definition workers_take_two :: "AlgorithmFeeder \<Rightarrow> AlgorithmFeeder" where
  "workers_take_two st =
     with_manager (\<lambda>m. snd (processingLoop_step (snd (processingLoop_step (startProcessing m)))))
       st"

text \<open>The ids of the videos in the manager's queue, in order.\<close>

definition queue_ids :: "SimulatedPlaybackManager \<Rightarrow> string list" where
  "queue_ids m = map (\<lambda>item. id_str (fst item)) (spm_videoQueue m)"

definition simulated_config :: AppConfig where
  "simulated_config = example_config\<lparr>useSimulatedPlayback := True\<rparr>"

text \<open>A store that already holds one session for the video \<open>BV1\<close>.\<close>

definition watched_history :: HistoryService where
  "watched_history =
     recordWatch ''2025-01-01T00:00:00.000Z'' (video_of ''BV1'' ''Cat Rescue'') 30000
       [''cat''] Home ''session-0'' None empty_history"

text \<open>A store that holds one session for the video \<open>BV9\<close>, which matches no keyword.\<close>

definition dog_history :: HistoryService where
  "dog_history =
     recordWatch ''2025-01-01T00:00:00.000Z'' (video_of ''BV9'' ''Dog Show'') 30000
       [''cat''] Search ''session-0'' None empty_history"

text \<open>A worker run whose telemetry sequence aborts at \<open>getVideoInfo\<close> after 600 ms.\<close>

definition failing_worker_env :: WorkerEnv where
  "failing_worker_env =
     \<lparr>playback = \<lparr>visitVideoPage_result = Inr (),
                   getVideoInfo_result = Inl (Error ''view failed''),
                   random_variation = 1 / 2, random_buffer = 1 / 2,
                   heartbeat_result = Inr (), reportPlayHistory_result = Inr ()\<rparr>,
      w_startTime = 0, w_endTime = 600,
      w_timestamp = ''2025-01-01T00:00:00.000Z''\<rparr>"

text \<open>A concurrent player with two players and one task, already taken by a worker.\<close>

definition example_player :: ConcurrentPlayer where
  "example_player =
     \<lparr>players = [\<lparr>player_id = 1, isActive = False, currentTask = None\<rparr>,
                 \<lparr>player_id = 2, isActive = False, currentTask = None\<rparr>],
      taskQueue = [\<lparr>task_id = 1, task_video = video_of ''BV1'' ''Cat Rescue'',
                    task_matchedKeywords = [''cat''], task_source = Home,
                    task_status = Playing, task_startTime = None, task_duration = None,
                    task_playerId = None\<rparr>],
      completedTasks = [], taskIdCounter = 1, cp_isRunning = True\<rparr>"

text \<open>A run of \<open>executeTask\<close> in which \<open>playVideo\<close> throws after \<open>ms\<close> milliseconds.\<close>

definition failing_task_env :: "int \<Rightarrow> TaskEnv" where
  "failing_task_env ms =
     \<lparr>play_result = Inl (Error ''navigation timeout''), startTime = 0, endTime = ms,
      timestamp = ''2025-01-01T00:00:00.000Z''\<rparr>"

text \<open>A platform on which every playback throws after \<open>ms\<close> milliseconds.\<close>

definition failing_platform_env :: "int \<Rightarrow> PlatformEnv" where
  "failing_platform_env ms =
     (platform_env [] [])\<lparr>playVideo_result := (\<lambda>k v. Inl (Error ''navigation timeout'')),
                           elapsed_ms := (\<lambda>k. ms)\<rparr>"

chapter \<open>Properties\<close>

section \<open>Properties of the matchers\<close>

lemma includes_str_sublist: "includes_str s k \<longleftrightarrow> sublist k s"
  by (induction s) (auto simp: sublist_Cons_right)

text \<open>
  Without the guard of \<open>match\<close>, mode \<open>all\<close> over an empty keyword list is vacuously
  true: the guard is what makes the empty list match nothing.
\<close>

lemma performMatching_all_empty:
  "performMatching \<lparr>keywords_list = [], matchMode = MatchAll, caseSensitive = cs\<rparr> str"
  by (simp add: performMatching_def)

text \<open>
  C9. For every video, \<open>KeywordMatcher.match\<close> returns false whenever the configured
  keyword list is empty, in both match modes and for either case-sensitivity setting.
\<close>

theorem match_empty_keywords_false:
  "keywords_list cfg = [] \<Longrightarrow> match cfg video = False"
  by (simp add: match_def)

theorem match_empty_keywords_false_witness:
  "keywords_list \<lparr>keywords_list = [], matchMode = MatchAll, caseSensitive = False\<rparr> = []
   \<and> match \<lparr>keywords_list = [], matchMode = MatchAll, caseSensitive = False\<rparr>
        \<lparr>id_str = ''BV1'', title = ''Cat Rescue'', author = ''bob'', url = '''',
         duration = None, tags = None\<rparr> = False"
  using match_empty_keywords_false
    [of "\<lparr>keywords_list = [], matchMode = MatchAll, caseSensitive = False\<rparr>"
        "\<lparr>id_str = ''BV1'', title = ''Cat Rescue'', author = ''bob'', url = '''',
          duration = None, tags = None\<rparr>"]
  by simp

subsection \<open>checkVideoMatch\<close>

lemma filter_length_eq_imp_id: "length (filter P xs) = length xs \<Longrightarrow> filter P xs = xs"
  by (metis filter_True length_filter_less linorder_neq_iff)

text \<open>
  Mode \<open>all\<close>: the result is the complete configured list or the empty list, whatever
  the case-sensitivity setting.
\<close>

lemma checkVideoMatch_all_full_or_empty:
  "matchMode cfg = MatchAll \<Longrightarrow>
   checkVideoMatch cfg video = keywords_list cfg \<or> checkVideoMatch cfg video = []"
  by (auto simp: checkVideoMatch_def Let_def dest: filter_length_eq_imp_id)

text \<open>
  Mode \<open>any\<close> with case-insensitive matching: exactly the configured keywords whose
  lower-cased text occurs in the lower-cased search text, in configuration order.
\<close>

lemma checkVideoMatch_any_insensitive:
  "matchMode cfg = MatchAny \<Longrightarrow> \<not> caseSensitive cfg \<Longrightarrow>
   checkVideoMatch cfg video =
     filter (\<lambda>k. sublist (toLowerCase k) (toLowerCase (title video @ '' '' @ author video)))
            (keywords_list cfg)"
  by (simp add: checkVideoMatch_def Let_def includes_str_sublist)

text \<open>
  C2. \<open>checkVideoMatch\<close> in mode \<open>any\<close> is claimed to return exactly the configured
  keywords that occur in the search text, with the search text and the keywords case-folded
  unless case sensitivity is configured. The code lower-cases the search text even when
  \<open>caseSensitive\<close> is set, while the keyword keeps its case. With the case-sensitive
  configuration \<open>[Cat]\<close> and the title \<open>Cat Rescue\<close> the keyword occurs in the
  search text as the claim builds it, and \<open>KeywordMatcher.match\<close> accepts the video, yet
  \<open>checkVideoMatch\<close> returns the empty list.
\<close>

theorem checkVideoMatch_case_sensitive_misses:
  "checkVideoMatch \<lparr>keywords_list = [''Cat''], matchMode = MatchAny, caseSensitive = True\<rparr>
      \<lparr>id_str = ''BV1'', title = ''Cat Rescue'', author = '''', url = '''',
       duration = None, tags = None\<rparr> = []
   \<and> includes_str (''Cat Rescue'' @ '' '' @ '''') ''Cat''
   \<and> match \<lparr>keywords_list = [''Cat''], matchMode = MatchAny, caseSensitive = True\<rparr>
      \<lparr>id_str = ''BV1'', title = ''Cat Rescue'', author = '''', url = '''',
       duration = None, tags = None\<rparr>"
  by (simp add: checkVideoMatch_def match_def performMatching_def prepareTextForMatching_def
      toLowerCase_def)

section \<open>Properties of the playback simulator\<close>

text \<open>
  What does hold: the returned duration never exceeds the cap \<open>max 5 (D - bufferTime)\<close>,
  where \<open>D\<close> is the resolved duration and \<open>bufferTime = 1 + 2 * random_buffer\<close> is at
  least 1; so it is at most \<open>D - bufferTime\<close>, hence at most \<open>D - 1\<close>, for every video of
  at least 6 seconds.
\<close>

lemma simulatePlayback_try_le_cap:
  assumes "simulatePlayback_try sim env simulatedDuration = Inr r"
      and "getVideoInfo_result env = Inr videoInfo"
  shows "r \<le> max 5 (actualVideoDuration videoInfo - (1 + random_buffer env * 2))"
proof -
  have "r = min (simulatedDuration *
                  ((1 - durationVariation sim / 100 / 2)
                   + random_variation env * (durationVariation sim / 100 / 2 * 2)))
                (max 5 (actualVideoDuration videoInfo - (1 + random_buffer env * 2)))"
    using assms
    by (auto simp: simulatePlayback_try_def Let_def split: sum.splits)
  then show ?thesis by simp
qed

lemma simulatePlayback_bounded:
  assumes "simulatePlayback_try sim env simulatedDuration = Inr r"
      and "getVideoInfo_result env = Inr videoInfo"
      and "0 \<le> random_buffer env"
  shows "r \<le> max 5 (actualVideoDuration videoInfo - (1 + random_buffer env * 2))"
    and "r \<le> max 5 (actualVideoDuration videoInfo - 1)"
    and "6 \<le> actualVideoDuration videoInfo \<Longrightarrow> r \<le> actualVideoDuration videoInfo - 1"
proof -
  show cap: "r \<le> max 5 (actualVideoDuration videoInfo - (1 + random_buffer env * 2))"
    using assms(1,2) by (rule simulatePlayback_try_le_cap)
  have "max 5 (actualVideoDuration videoInfo - (1 + random_buffer env * 2))
          \<le> max 5 (actualVideoDuration videoInfo - 1)"
    using assms(3) by (simp add: max_def)
  with cap show one: "r \<le> max 5 (actualVideoDuration videoInfo - 1)" by simp
  show "r \<le> actualVideoDuration videoInfo - 1" if "6 \<le> actualVideoDuration videoInfo"
    using one that by (simp add: max_def split: if_splits)
qed

text \<open>
  C1. Every invocation of \<open>simulatePlayback\<close> that does not fail is claimed to return at
  most the video's duration minus 1, the safety buffer the code's own comment reserves
  (the simulated duration does not exceed the real one, 1 to 3 seconds are kept back).
  The floor \<open>max 5\<close> of the cap overrides the buffer on short videos. For a video of
  5 seconds and the nominal 30 seconds the code returns 5, more than \<open>5 - 1\<close>; for a video
  of 3 seconds it returns 5, more than the video's whole length.
\<close>

theorem simulatePlayback_short_video_exceeds:
  "simulatePlayback_try (newSimulator 2 5)
     \<lparr>visitVideoPage_result = Inr (),
      getVideoInfo_result = Inr \<lparr>aid = 1, bvid = ''BV1'', cid = 1, bili_duration = Some 5\<rparr>,
      random_variation = 1 / 2, random_buffer = 0,
      heartbeat_result = Inr (), reportPlayHistory_result = Inr ()\<rparr> 30 = Inr 5
   \<and> \<not> (simulatePlayback (newSimulator 2 5)
     \<lparr>visitVideoPage_result = Inr (),
      getVideoInfo_result = Inr \<lparr>aid = 1, bvid = ''BV1'', cid = 1, bili_duration = Some 5\<rparr>,
      random_variation = 1 / 2, random_buffer = 0,
      heartbeat_result = Inr (), reportPlayHistory_result = Inr ()\<rparr> 30
        \<le> actualVideoDuration \<lparr>aid = 1, bvid = ''BV1'', cid = 1, bili_duration = Some 5\<rparr> - 1)
   \<and> simulatePlayback_try (newSimulator 2 5)
     \<lparr>visitVideoPage_result = Inr (),
      getVideoInfo_result = Inr \<lparr>aid = 2, bvid = ''BV2'', cid = 2, bili_duration = Some 3\<rparr>,
      random_variation = 1 / 2, random_buffer = 1 / 2,
      heartbeat_result = Inr (), reportPlayHistory_result = Inr ()\<rparr> 30 = Inr 5
   \<and> \<not> (simulatePlayback (newSimulator 2 5)
     \<lparr>visitVideoPage_result = Inr (),
      getVideoInfo_result = Inr \<lparr>aid = 2, bvid = ''BV2'', cid = 2, bili_duration = Some 3\<rparr>,
      random_variation = 1 / 2, random_buffer = 1 / 2,
      heartbeat_result = Inr (), reportPlayHistory_result = Inr ()\<rparr> 30
        \<le> actualVideoDuration \<lparr>aid = 2, bvid = ''BV2'', cid = 2, bili_duration = Some 3\<rparr>)"
  by (simp add: simulatePlayback_def simulatePlayback_try_def newSimulator_def
        actualVideoDuration_def Let_def)

section \<open>Properties of the history store\<close>

lemma recordWatch_flags [simp]:
  "appendFails (recordWatch now video d ks src sid sim hs) = appendFails hs"
  "readFails (recordWatch now video d ks src sid sim hs) = readFails hs"
  by (simp_all add: recordWatch_def Let_def)

text \<open>An append that succeeds changes the file.\<close>

lemma appendRecord_changes: "Some (appendRecord rec f) \<noteq> f"
proof (cases f)
  case None
  then show ?thesis by simp
next
  case (Some c)
  have "appendRecord rec (Some c) \<noteq> c"
  proof
    assume "appendRecord rec (Some c) = c"
    then have "unterminated (appendRecord rec (Some c)) = unterminated c"
          and "file_lines (appendRecord rec (Some c)) = file_lines c"
      by simp_all
    then show False
      by (auto simp: appendRecord_def split: if_splits)
  qed
  with Some show ?thesis by simp
qed

text \<open>
  A file written only by \<open>recordWatch\<close> ends with a newline: an append that succeeds
  leaves it so, whatever it was before, and one that fails leaves the file as it was.
\<close>

lemma recordWatch_endsWithNewline:
  "\<not> appendFails hs \<or> endsWithNewline hs \<Longrightarrow>
   endsWithNewline (recordWatch now video d ks src sid sim hs)"
  by (auto simp: endsWithNewline_def recordWatch_def appendRecord_def Let_def
           split: option.splits)

text \<open>On a file that ends with a newline a recorded video stays recorded.\<close>

lemma hasWatched_recordWatch_mono:
  "endsWithNewline hs \<Longrightarrow> hasWatched hs videoId \<Longrightarrow>
   hasWatched (recordWatch now video d ks src sid sim hs) videoId"
  by (auto simp: endsWithNewline_def hasWatched_def recordWatch_def appendRecord_def Let_def
           split: option.splits if_splits)

text \<open>
  C5 (as stated): after \<open>recordWatch\<close> with a video, \<open>hasWatched\<close> of its id is true for
  every store state. It fails, with no call throwing, on a file whose last line lacks its
  newline: the rendering is glued to that line, the glued line does not parse, and
  \<open>hasWatched\<close> skips it. It also fails on a store whose file cannot be appended to: the
  exception of \<open>appendFileSync\<close> is caught and logged, and nothing is recorded.
\<close>

theorem recordWatch_glued_line_counterexample:
  "\<not> hasWatched
       (recordWatch ''2025-01-01T00:00:00.000Z''
          \<lparr>id_str = ''BV1'', title = ''Cat Rescue'', author = ''bob'', url = '''',
           duration = None, tags = None\<rparr>
          30000 [''cat''] Home ''session-1'' None
          \<lparr>hs_platform = ''bilibili'',
           historyFile = Some \<lparr>file_lines = [Unparseable], unterminated = True\<rparr>,
           appendFails = False, readFails = False\<rparr>)
       ''BV1''
   \<and> \<not> hasWatched
       (recordWatch ''2025-01-01T00:00:00.000Z''
          \<lparr>id_str = ''BV1'', title = ''Cat Rescue'', author = ''bob'', url = '''',
           duration = None, tags = None\<rparr>
          30000 [''cat''] Home ''session-1'' None
          \<lparr>hs_platform = ''bilibili'', historyFile = None, appendFails = True,
           readFails = False\<rparr>)
       ''BV1''"
  by (simp add: hasWatched_def recordWatch_def appendRecord_def)

text \<open>
  C5 (amended). For every video and every store whose history file is absent or ends with
  a newline, and on which appending to and reading the file do not throw, \<open>hasWatched\<close> of
  the video's id is true immediately after \<open>recordWatch\<close> with that video, whatever the
  duration, keywords, source, session id and simulated-playback data, and whatever lines
  the file held before (parseable or not).
\<close>

theorem hasWatched_after_recordWatch:
  "endsWithNewline hs \<Longrightarrow> \<not> appendFails hs \<Longrightarrow> \<not> readFails hs \<Longrightarrow>
   hasWatched (recordWatch now video d ks src sid sim hs) (id_str video)"
  by (auto simp: endsWithNewline_def hasWatched_def recordWatch_def appendRecord_def
        watchRecord_def Let_def split: option.splits)

theorem hasWatched_after_recordWatch_witness:
  "endsWithNewline \<lparr>hs_platform = ''bilibili'',
                    historyFile = Some \<lparr>file_lines = [Unparseable], unterminated = False\<rparr>,
                    appendFails = False, readFails = False\<rparr>
   \<and> \<not> appendFails \<lparr>hs_platform = ''bilibili'',
                    historyFile = Some \<lparr>file_lines = [Unparseable], unterminated = False\<rparr>,
                    appendFails = False, readFails = False\<rparr>
   \<and> \<not> readFails \<lparr>hs_platform = ''bilibili'',
                    historyFile = Some \<lparr>file_lines = [Unparseable], unterminated = False\<rparr>,
                    appendFails = False, readFails = False\<rparr>
   \<and> hasWatched
       (recordWatch ''2025-01-01T00:00:00.000Z''
          \<lparr>id_str = ''BV1'', title = ''Cat Rescue'', author = ''bob'', url = '''',
           duration = None, tags = None\<rparr>
          30000 [''cat''] Home ''session-1'' None
          \<lparr>hs_platform = ''bilibili'',
           historyFile = Some \<lparr>file_lines = [Unparseable], unterminated = False\<rparr>,
           appendFails = False, readFails = False\<rparr>)
       (id_str \<lparr>id_str = ''BV1'', title = ''Cat Rescue'', author = ''bob'', url = '''',
           duration = None, tags = None\<rparr>)"
  using hasWatched_after_recordWatch
    [of "\<lparr>hs_platform = ''bilibili'',
          historyFile = Some \<lparr>file_lines = [Unparseable], unterminated = False\<rparr>,
          appendFails = False, readFails = False\<rparr>"
        "''2025-01-01T00:00:00.000Z''"
        "\<lparr>id_str = ''BV1'', title = ''Cat Rescue'', author = ''bob'', url = '''',
           duration = None, tags = None\<rparr>"
        30000 "[''cat'']" Home "''session-1''" None]
  by (simp add: endsWithNewline_def)

section \<open>Properties of the feeding loop\<close>

subsection \<open>The consecutive-miss counter\<close>

lemma playTargetVideo_missedRounds [simp]:
  "missedRounds (playTargetVideo config env video kw source st) = missedRounds st"
  by (simp add: playTargetVideo_def Let_def split: sum.splits)

lemma selectSearchKeyword_frame:
  assumes "selectSearchKeyword config env st = (keyword, st1)"
  shows "historyService st1 = historyService st"
    and "concurrentPlayer st1 = concurrentPlayer st"
    and "simulatedPlaybackManager st1 = simulatedPlaybackManager st"
    and "videoQueue st1 = videoQueue st"
    and "playVideo_calls st1 = playVideo_calls st"
    and "sessionId st1 = sessionId st"
    and "missedRounds st1 = missedRounds st"
  using assms
  by (auto simp: selectSearchKeyword_def Let_def split: if_splits Strategy.splits option.splits)

lemma selectSearchKeyword_missedRounds [simp]:
  "missedRounds (snd (selectSearchKeyword config env st)) = missedRounds st"
  by (simp add: selectSearchKeyword_def Let_def split: Strategy.splits option.splits)

lemma performActiveSearch_missedRounds [simp]:
  "missedRounds (snd (performActiveSearch config env st)) = missedRounds st"
proof -
  obtain keyword st1 where sel: "selectSearchKeyword config env st = (keyword, st1)"
    by (cases "selectSearchKeyword config env st")
  then have "missedRounds st1 = missedRounds st"
    using selectSearchKeyword_missedRounds [of config env st] by simp
  then show ?thesis
    by (simp add: performActiveSearch_def sel Let_def
             split: option.splits sum.splits list.splits)
qed

lemma checkActiveSearch_missedRounds:
  "missedRounds (checkActiveSearch config env st) =
     (if enableActiveSearch config \<and> js_or (activeSearchThreshold config) 10 \<le> missedRounds st
      then (if fst (performActiveSearch config env st) then 0 else missedRounds st div 2)
      else missedRounds st)"
proof -
  obtain success st1 where pas: "performActiveSearch config env st = (success, st1)"
    by (cases "performActiveSearch config env st")
  then have "missedRounds st1 = missedRounds st"
    using performActiveSearch_missedRounds [of config env st] by simp
  then show ?thesis
    by (simp add: checkActiveSearch_def Let_def pas)
qed

lemma processVideos_missedRounds [simp]:
  "missedRounds (processVideos config env vs st) = missedRounds st"
  by (induction vs arbitrary: st) (simp_all add: Let_def)

lemma feedingCycle_missedRounds_match:
  assumes "getRecommendedVideos_result env = Inr videos"
      and "length (videoQueue st) < js_or (maxQueueSize config) 20"
      and "filter (match (matcher config)) videos \<noteq> []"
  shows "missedRounds (feedingCycle config env st) = 0"
  using assms
  by (simp add: feedingCycle_def Let_def processVideoQueue_def split: option.splits)

lemma feedingCycle_missedRounds_nomatch:
  assumes "getRecommendedVideos_result env = Inr videos"
      and "length (videoQueue st) < js_or (maxQueueSize config) 20"
      and "filter (match (matcher config)) videos = []"
  shows "missedRounds (feedingCycle config env st) =
           missedRounds (checkActiveSearch config env (st\<lparr>missedRounds := missedRounds st + 1\<rparr>))"
  using assms by (simp add: feedingCycle_def Let_def)

text \<open>
  C6. In a cycle that fetches the recommendations and passes the capacity test:
  when at least one video matches (so whenever a matching video is admitted), the counter
  is 0 afterwards; when none matches, the counter is first incremented, and then, if active
  search is enabled and the incremented counter has reached the threshold, the search runs
  and the counter becomes 0 on success and half the incremented counter (rounded down) on
  failure; otherwise it stays at the old value plus 1. The last conjunct is the same fact
  for \<open>checkActiveSearch\<close> alone, where the value halved is the counter on entry.
\<close>

theorem feedingCycle_missedRounds:
  assumes "getRecommendedVideos_result env = Inr videos"
      and "length (videoQueue st) < js_or (maxQueueSize config) 20"
  shows "(filter (match (matcher config)) videos \<noteq> [] \<longrightarrow>
            missedRounds (feedingCycle config env st) = 0)
       \<and> (filter (match (matcher config)) videos = [] \<longrightarrow>
            missedRounds (feedingCycle config env st) =
              (if enableActiveSearch config
                  \<and> js_or (activeSearchThreshold config) 10 \<le> missedRounds st + 1
               then (if fst (performActiveSearch config env
                               (st\<lparr>missedRounds := missedRounds st + 1\<rparr>))
                     then 0 else (missedRounds st + 1) div 2)
               else missedRounds st + 1))
       \<and> missedRounds (checkActiveSearch config env st) =
              (if enableActiveSearch config
                  \<and> js_or (activeSearchThreshold config) 10 \<le> missedRounds st
               then (if fst (performActiveSearch config env st) then 0 else missedRounds st div 2)
               else missedRounds st)"
proof (intro conjI impI)
  assume "filter (match (matcher config)) videos \<noteq> []"
  with assms show "missedRounds (feedingCycle config env st) = 0"
    by (rule feedingCycle_missedRounds_match)
next
  assume "filter (match (matcher config)) videos = []"
  with assms have
    "missedRounds (feedingCycle config env st) =
       missedRounds (checkActiveSearch config env (st\<lparr>missedRounds := missedRounds st + 1\<rparr>))"
    by (rule feedingCycle_missedRounds_nomatch)
  then show "missedRounds (feedingCycle config env st) =
              (if enableActiveSearch config
                  \<and> js_or (activeSearchThreshold config) 10 \<le> missedRounds st + 1
               then (if fst (performActiveSearch config env
                               (st\<lparr>missedRounds := missedRounds st + 1\<rparr>))
                     then 0 else (missedRounds st + 1) div 2)
               else missedRounds st + 1)"
    by (simp add: checkActiveSearch_missedRounds)
next
  show "missedRounds (checkActiveSearch config env st) =
              (if enableActiveSearch config
                  \<and> js_or (activeSearchThreshold config) 10 \<le> missedRounds st
               then (if fst (performActiveSearch config env st) then 0 else missedRounds st div 2)
               else missedRounds st)"
    by (rule checkActiveSearch_missedRounds)
qed

text \<open>
  The theorem at concrete inputs, threshold 10: with the counter at 9 and a search that
  finds nothing the counter becomes 5; with the counter at 3 it becomes 4; with a matching
  recommendation it becomes 0.
\<close>

theorem feedingCycle_missedRounds_witness:
  "getRecommendedVideos_result (platform_env [] []) = Inr []
   \<and> length (videoQueue (single_feeder empty_history 9)) < js_or (maxQueueSize example_config) 20
   \<and> missedRounds (feedingCycle example_config (platform_env [] [])
                     (single_feeder empty_history 9)) = 5
   \<and> missedRounds (feedingCycle example_config (platform_env [] [])
                     (single_feeder empty_history 3)) = 4
   \<and> getRecommendedVideos_result (platform_env [video_of ''BV1'' ''Cat Rescue''] [])
       = Inr [video_of ''BV1'' ''Cat Rescue'']
   \<and> missedRounds (feedingCycle example_config (platform_env [video_of ''BV1'' ''Cat Rescue''] [])
                     (single_feeder empty_history 9)) = 0"
proof -
  have rec: "getRecommendedVideos_result (platform_env [] []) = Inr []"
    by (simp add: platform_env_def)
  have cap: "length (videoQueue (single_feeder empty_history n))
               < js_or (maxQueueSize example_config) 20" for n
    by (simp add: single_feeder_def example_config_def js_or_def)
  have fails: "\<not> fst (performActiveSearch example_config (platform_env [] []) s)" for s
    by (simp add: performActiveSearch_def platform_env_def selectSearchKeyword_def
          example_config_def cat_matcher_def nth_opt_def Let_def)
  have cfg: "enableActiveSearch example_config"
            "js_or (activeSearchThreshold example_config) 10 = 10"
    by (simp_all add: example_config_def js_or_def)
  have nine: "missedRounds (feedingCycle example_config (platform_env [] [])
                     (single_feeder empty_history 9)) = 5"
    using feedingCycle_missedRounds [OF rec cap [of 9]] fails cfg
    by (simp add: single_feeder_def)
  have three: "missedRounds (feedingCycle example_config (platform_env [] [])
                     (single_feeder empty_history 3)) = 4"
    using feedingCycle_missedRounds [OF rec cap [of 3]] fails cfg
    by (simp add: single_feeder_def)
  have rec1: "getRecommendedVideos_result (platform_env [video_of ''BV1'' ''Cat Rescue''] [])
       = Inr [video_of ''BV1'' ''Cat Rescue'']"
    by (simp add: platform_env_def)
  have hit: "filter (match (matcher example_config)) [video_of ''BV1'' ''Cat Rescue''] \<noteq> []"
    by (simp add: example_config_def cat_matcher_def match_def performMatching_def
          prepareTextForMatching_def video_of_def toLowerCase_def)
  have zero: "missedRounds (feedingCycle example_config
                     (platform_env [video_of ''BV1'' ''Cat Rescue''] [])
                     (single_feeder empty_history 9)) = 0"
    using feedingCycle_missedRounds [OF rec1 cap [of 9]] hit by blast
  from rec cap [of 9] nine three rec1 zero show ?thesis by blast
qed

section \<open>Properties of the simulated playback manager's queue\<close>

lemma example_manager_eval:
  "example_manager =
     \<lparr>spm_config = \<lparr>spc_playbackSpeed = 2, watchDuration = 30, minWaitTime = 5,
        spc_platform = ''bilibili'', cookies = ''SESSDATA=x'',
        spc_concurrentWorkers = Some 2, spc_durationVariation = Some 5\<rparr>,
      simulators = [newSimulator 2 5, newSimulator 2 5],
      isProcessing = False, currentVideoSource = Home, spm_sessionId = ''session-1'',
      concurrentWorkers = 2, activeWorkers = 0, spm_videoQueue = [], pendingStarts = 0\<rparr>"
  by (simp add: example_manager_def newSimulatedPlaybackManager_def initializeSimulators_def
        js_or_def numeral_2_eq_2)

lemma spm_addToQueue_queue:
  "spm_videoQueue (spm_addToQueue hs videos source m) =
     spm_videoQueue m
     @ map (\<lambda>video. (video, case source of None \<Rightarrow> currentVideoSource m | Some s \<Rightarrow> s))
         (filter (\<lambda>video. \<not> hasWatched hs (id_str video)
                           \<and> id_str video \<notin> set (queue_ids m))
                 videos)"
proof -
  have same: "(\<lambda>video. if hasWatched hs (id_str video) then False
                 else if list_ex (\<lambda>queuedVideo. id_str (fst queuedVideo) = id_str video)
                           (spm_videoQueue m) then False
                 else True)
        = (\<lambda>video. \<not> hasWatched hs (id_str video) \<and> id_str video \<notin> set (queue_ids m))"
    by (rule ext) (force simp: queue_ids_def list_ex_iff image_iff)
  show ?thesis
    unfolding spm_addToQueue_def Let_def same
    by (cases "filter (\<lambda>video. \<not> hasWatched hs (id_str video)
                            \<and> id_str video \<notin> set (queue_ids m)) videos") simp_all
qed

text \<open>
  What does hold: a batch whose ids are pairwise distinct keeps the queue's ids distinct,
  and nothing watched or already queued is appended.
\<close>

lemma spm_addToQueue_distinct_batch:
  assumes "distinct (queue_ids m)" and "distinct (map id_str videos)"
  shows "distinct (queue_ids (spm_addToQueue hs videos source m))"
proof -
  let ?P = "\<lambda>video. \<not> hasWatched hs (id_str video) \<and> id_str video \<notin> set (queue_ids m)"
  have ids: "queue_ids (spm_addToQueue hs videos source m)
               = queue_ids m @ map id_str (filter ?P videos)"
    by (simp add: queue_ids_def spm_addToQueue_queue comp_def)
  have "distinct (map id_str (filter ?P videos))"
    using assms(2) by (rule distinct_map_filter)
  moreover have "set (queue_ids m) \<inter> set (map id_str (filter ?P videos)) = {}"
    by auto
  ultimately show ?thesis
    using assms(1) by (simp add: ids)
qed

lemma spm_addToQueue_no_watched:
  "item \<in> set (spm_videoQueue (spm_addToQueue hs videos source m)) \<Longrightarrow>
   item \<in> set (spm_videoQueue m) \<or> \<not> hasWatched hs (id_str (fst item))"
  by (auto simp: spm_addToQueue_queue)

text \<open>
  C10. \<open>addToQueue\<close> is claimed to keep the ids in the manager's queue pairwise distinct.
  The filter compares each video of the batch with the queue as it is before the call, so a
  batch that carries the same video twice is appended twice: from the empty queue, the batch
  of two copies of one video gives a queue with a repeated id.
\<close>

theorem spm_addToQueue_duplicate_in_batch:
  "distinct (queue_ids example_manager)
   \<and> queue_ids (spm_addToQueue empty_history
                  [video_of ''BV1'' ''Cat Rescue'', video_of ''BV1'' ''Cat Rescue'']
                  (Some Home) example_manager) = [''BV1'', ''BV1'']
   \<and> \<not> distinct (queue_ids (spm_addToQueue empty_history
                  [video_of ''BV1'' ''Cat Rescue'', video_of ''BV1'' ''Cat Rescue'']
                  (Some Home) example_manager))"
  by (simp add: example_manager_eval queue_ids_def spm_addToQueue_def empty_history_def
        hasWatched_def video_of_def)

section \<open>Capacity of the session queue\<close>

lemma performActiveSearch_videoQueue:
  "videoQueue (snd (performActiveSearch config env st)) = videoQueue st"
proof -
  obtain keyword st1 where sel: "selectSearchKeyword config env st = (keyword, st1)"
    by (cases "selectSearchKeyword config env st")
  have "videoQueue st1 = videoQueue st"
    using selectSearchKeyword_frame(4) [OF sel] .
  then show ?thesis
    by (simp add: performActiveSearch_def sel Let_def playTargetVideo_def
             split: option.splits sum.splits list.splits)
qed

text \<open>
  In simulated mode a cycle never changes the feeder's own \<open>videoQueue\<close>, the queue that
  the capacity test reads: once empty it stays empty, and the test never skips admission.
\<close>

lemma feedingCycle_simulated_videoQueue:
  assumes "simulatedPlaybackManager st = Some m"
  shows "videoQueue (feedingCycle config env st) = videoQueue st"
proof -
  have "videoQueue (checkActiveSearch config env s) = videoQueue s" for s
  proof -
    obtain success s1 where pas: "performActiveSearch config env s = (success, s1)"
      by (cases "performActiveSearch config env s")
    then have "videoQueue s1 = videoQueue s"
      using performActiveSearch_videoQueue [of config env s] by simp
    then show ?thesis
      by (simp add: checkActiveSearch_def Let_def pas)
  qed
  then show ?thesis
    using assms by (simp add: feedingCycle_def Let_def split: sum.splits)
qed

text \<open>
  C3. The queue that workers consume is claimed to hold at most \<open>maxQueueSize\<close> items in
  every playback mode, with admission skipped whenever it is at or above capacity. In
  simulated mode the capacity test of the cycle reads the feeder's own \<open>videoQueue\<close>, which
  stays empty, while the videos go to the manager's queue, and \<open>addToQueue\<close> has no bound.
  With \<open>maxQueueSize = 2\<close> and two workers: a cycle with four matching videos leaves four
  items in the manager's queue; the workers take two, which leaves the queue at capacity
  with no worker free; the next cycle still admits three more, five items in all.
\<close>

theorem feedingCycle_simulated_queue_exceeds_capacity:
  "js_or (maxQueueSize simulated_config) 20 = 2
   \<and> map (\<lambda>item. id_str (fst item)) (managerQueue
        (feedingCycle simulated_config
           (platform_env [video_of ''BV1'' ''cat one'', video_of ''BV2'' ''cat two'',
                          video_of ''BV3'' ''cat three'', video_of ''BV4'' ''cat four''] [])
           (simulated_feeder empty_history 0))) = [''BV1'', ''BV2'', ''BV3'', ''BV4'']
   \<and> map (\<lambda>item. id_str (fst item)) (managerQueue
        (workers_take_two
           (feedingCycle simulated_config
              (platform_env [video_of ''BV1'' ''cat one'', video_of ''BV2'' ''cat two'',
                             video_of ''BV3'' ''cat three'', video_of ''BV4'' ''cat four''] [])
              (simulated_feeder empty_history 0)))) = [''BV3'', ''BV4'']
   \<and> map (\<lambda>item. id_str (fst item)) (managerQueue
        (feedingCycle simulated_config
           (platform_env [video_of ''BV5'' ''cat five'', video_of ''BV6'' ''cat six'',
                          video_of ''BV7'' ''cat seven''] [])
           (workers_take_two
              (feedingCycle simulated_config
                 (platform_env [video_of ''BV1'' ''cat one'', video_of ''BV2'' ''cat two'',
                                video_of ''BV3'' ''cat three'', video_of ''BV4'' ''cat four''] [])
                 (simulated_feeder empty_history 0)))))
       = [''BV3'', ''BV4'', ''BV5'', ''BV6'', ''BV7'']"
  by (simp add: simulated_config_def example_config_def cat_matcher_def js_or_def
        feedingCycle_def platform_env_def simulated_feeder_def single_feeder_def
        example_manager_eval managerQueue_def spm_addToQueue_def empty_history_def
        hasWatched_def video_of_def match_def performMatching_def prepareTextForMatching_def
        toLowerCase_def feeder_getCurrentVideoSource_def workers_take_two_def with_manager_def
        startProcessing_def processingLoop_step_def js_rem_def Let_def)

section \<open>Re-execution of watched videos\<close>

lemma watched_history_eval:
  "watched_history =
     \<lparr>hs_platform = ''bilibili'',
      historyFile = Some \<lparr>file_lines =
                           [Parsed (watchRecord empty_history ''2025-01-01T00:00:00.000Z''
                                      (video_of ''BV1'' ''Cat Rescue'') 30000 [''cat''] Home
                                      ''session-0'' None)],
                         unterminated = False\<rparr>,
      appendFails = False, readFails = False\<rparr>"
  by (simp add: watched_history_def recordWatch_def appendRecord_def empty_history_def Let_def)

text \<open>
  What does hold for the worker of the concurrent player: a task whose video is already in
  the history is marked completed and moved to the completed tasks; the history is left as
  it is.
\<close>

lemma playerWorker_step_skips_watched:
  assumes "find_pending (taskQueue cp) = Some i"
      and "hasWatched hs (id_str (task_video (taskQueue cp ! i)))"
      and "i < length (taskQueue cp)"
  shows "fst (playerWorker_step sid env p (hs, cp)) = hs
       \<and> task_status (taskQueue (snd (playerWorker_step sid env p (hs, cp))) ! i) = Completed"
  using assms
  by (simp add: playerWorker_step_def getNextTask_def update_task_def Let_def)

text \<open>
  C4. An item already recorded in the history is claimed never to be executed again.
  In single-player mode the active search hands its result to \<open>playTargetVideo\<close>, which
  does not consult the history: with \<open>BV1\<close> already recorded, ten missed rounds and a
  search that returns \<open>BV1\<close>, the cycle calls \<open>playVideo\<close> on \<open>BV1\<close> and records a second
  session for it.
\<close>

theorem feedingCycle_active_search_replays_watched:
  "hasWatched watched_history ''BV1''
   \<and> playVideo_calls
        (feedingCycle example_config (platform_env [] [video_of ''BV1'' ''Cat Rescue''])
           (single_feeder watched_history 9)) = [video_of ''BV1'' ''Cat Rescue'']
   \<and> map_option (\<lambda>f. map (line_has_id ''BV1'') (file_lines f))
        (historyFile (historyService
           (feedingCycle example_config (platform_env [] [video_of ''BV1'' ''Cat Rescue''])
              (single_feeder watched_history 9)))) = Some [True, True]"
  by (simp add: watched_history_eval hasWatched_def watchRecord_def
        example_config_def cat_matcher_def js_or_def
        feedingCycle_def checkActiveSearch_def performActiveSearch_def selectSearchKeyword_def
        nth_opt_def playTargetVideo_def recordWatch_def appendRecord_def
        platform_env_def single_feeder_def empty_history_def
        video_of_def match_def performMatching_def prepareTextForMatching_def
        toLowerCase_def Let_def)

text \<open>
  The manager dispatches a video twice when it is offered again while its first run is in
  flight: the first run has left the queue and is not yet in the history, so \<open>addToQueue\<close>
  accepts the video again and the next free worker takes it.
\<close>

lemma spm_dispatches_in_flight_video_twice:
  "fst (processingLoop_step
          (startProcessing
             (spm_addToQueue empty_history [video_of ''BV1'' ''Cat Rescue''] (Some Home)
                example_manager)))
     = Some ((video_of ''BV1'' ''Cat Rescue'', Home), 0)
   \<and> fst (processingLoop_step
          (spm_addToQueue empty_history [video_of ''BV1'' ''Cat Rescue''] (Some Home)
             (snd (processingLoop_step
                (startProcessing
                   (spm_addToQueue empty_history [video_of ''BV1'' ''Cat Rescue''] (Some Home)
                      example_manager))))))
     = Some ((video_of ''BV1'' ''Cat Rescue'', Home), 1)"
  by (simp add: example_manager_eval spm_addToQueue_def startProcessing_def
        processingLoop_step_def js_rem_def empty_history_def hasWatched_def video_of_def Let_def)

section \<open>Active search\<close>

lemma performActiveSearch_unfold:
  assumes "searchVideos env = Some search"
      and "selectSearchKeyword config env st = (Some kw, st1)"
      and "kw \<noteq> []"
      and "search kw = Inr results"
      and "filter (match (matcher config)) results = []"
  shows "performActiveSearch config env st =
           (case results of
              [] \<Rightarrow> (False, st1)
            | firstVideo # _ \<Rightarrow>
                (case simulatedPlaybackManager st1 of
                   Some m \<Rightarrow>
                     (True, st1\<lparr>simulatedPlaybackManager :=
                        Some (spm_addToQueue (historyService st1) [firstVideo] (Some Search) m)\<rparr>)
                 | None \<Rightarrow>
                (case concurrentPlayer st1 of
                   Some cp \<Rightarrow>
                     (True, st1\<lparr>concurrentPlayer :=
                        Some (cp_addToQueue config [firstVideo] [kw] Search cp)\<rparr>)
                 | None \<Rightarrow>
                     (True, playTargetVideo config env firstVideo (Some kw) Search st1))))"
proof (cases results)
  case Nil
  with assms(1-4) show ?thesis
    by (simp add: performActiveSearch_def)
next
  case (Cons firstVideo rest)
  have none: "filter (match (matcher config)) (firstVideo # rest) = []"
    using assms(5) Cons by simp
  show ?thesis
    by (simp add: performActiveSearch_def assms(1-4) Cons Let_def none del: filter.simps)
qed

text \<open>
  C7 (as stated): when the search returns results of which none matches, exactly the first
  result is admitted. In simulated mode the first result goes through the manager's
  \<open>addToQueue\<close>, which drops a video that is already watched (or already queued): with
  \<open>BV9\<close> in the history and a search that returns only \<open>BV9\<close>, nothing is admitted, yet
  the search counts as a success and the counter is reset.
\<close>

theorem performActiveSearch_watched_top_result_counterexample:
  "filter (match (matcher simulated_config)) [video_of ''BV9'' ''Dog Show''] = []
   \<and> fst (performActiveSearch simulated_config (platform_env [] [video_of ''BV9'' ''Dog Show''])
            (simulated_feeder dog_history 10))
   \<and> managerQueue (snd (performActiveSearch simulated_config
                          (platform_env [] [video_of ''BV9'' ''Dog Show''])
                          (simulated_feeder dog_history 10))) = []
   \<and> missedRounds (checkActiveSearch simulated_config
                     (platform_env [] [video_of ''BV9'' ''Dog Show''])
                     (simulated_feeder dog_history 10)) = 0"
  by (simp add: simulated_config_def example_config_def cat_matcher_def js_or_def
        checkActiveSearch_def performActiveSearch_def selectSearchKeyword_def nth_opt_def
        platform_env_def simulated_feeder_def single_feeder_def example_manager_eval
        managerQueue_def spm_addToQueue_def dog_history_def recordWatch_def appendRecord_def
        watchRecord_def
        empty_history_def hasWatched_def video_of_def match_def performMatching_def
        prepareTextForMatching_def toLowerCase_def Let_def)

text \<open>
  C7 (amended). Let the search be issued with a non-empty keyword and return \<open>results\<close>
  of which none matches. If \<open>results\<close> is empty, the search fails and nothing is admitted,
  played or recorded. Otherwise the search succeeds and only the first result is offered to
  the back end in use, with source \<open>search\<close>: in simulated mode the manager's queue gains the
  first result unless it is already watched or already queued (then the queue is unchanged);
  in concurrent mode the player gets exactly one new pending task for it; in single-player
  mode it is played at once, exactly one call, and its session is recorded with source
  \<open>search\<close> and the search keyword unless the playback fails within 1000 ms. When the
  search was triggered by \<open>checkActiveSearch\<close>, the counter is 0 afterwards.
\<close>

theorem performActiveSearch_no_match:
  assumes sv: "searchVideos env = Some search"
      and sel: "selectSearchKeyword config env st = (Some kw, st1)"
      and kw: "kw \<noteq> []"
      and res: "search kw = Inr results"
      and none: "filter (match (matcher config)) results = []"
  shows "(results = [] \<longrightarrow>
            \<not> fst (performActiveSearch config env st)
          \<and> managerQueue (snd (performActiveSearch config env st)) = managerQueue st
          \<and> playerTasks (snd (performActiveSearch config env st)) = playerTasks st
          \<and> playVideo_calls (snd (performActiveSearch config env st)) = playVideo_calls st
          \<and> historyService (snd (performActiveSearch config env st)) = historyService st)
       \<and> (\<forall>firstVideo rest. results = firstVideo # rest \<longrightarrow>
            fst (performActiveSearch config env st)
          \<and> (\<forall>m. simulatedPlaybackManager st = Some m \<longrightarrow>
                 managerQueue (snd (performActiveSearch config env st)) =
                   spm_videoQueue m
                   @ (if hasWatched (historyService st) (id_str firstVideo)
                         \<or> id_str firstVideo \<in> set (queue_ids m)
                      then [] else [(firstVideo, Search)])
               \<and> playerTasks (snd (performActiveSearch config env st)) = playerTasks st
               \<and> playVideo_calls (snd (performActiveSearch config env st)) = playVideo_calls st)
          \<and> (\<forall>cp. simulatedPlaybackManager st = None \<and> concurrentPlayer st = Some cp \<longrightarrow>
                 playerTasks (snd (performActiveSearch config env st)) =
                   taskQueue cp
                   @ [\<lparr>task_id = taskIdCounter cp + 1, task_video = firstVideo,
                       task_matchedKeywords =
                         getVideoMatchedKeywords (matcher config) firstVideo [kw],
                       task_source = Search, task_status = Pending, task_startTime = None,
                       task_duration = None, task_playerId = None\<rparr>]
               \<and> playVideo_calls (snd (performActiveSearch config env st)) = playVideo_calls st)
          \<and> (simulatedPlaybackManager st = None \<and> concurrentPlayer st = None \<longrightarrow>
                 playVideo_calls (snd (performActiveSearch config env st)) =
                   playVideo_calls st @ [firstVideo]
               \<and> historyService (snd (performActiveSearch config env st)) =
                   (if isl (playVideo_result env (length (playVideo_calls st)) firstVideo)
                       \<and> elapsed_ms env (length (playVideo_calls st)) \<le> 1000
                    then historyService st
                    else recordWatch (clock_timestamp env) firstVideo
                           (elapsed_ms env (length (playVideo_calls st))) [kw] Search
                           (sessionId st) None (historyService st)))
          \<and> (enableActiveSearch config
                \<and> js_or (activeSearchThreshold config) 10 \<le> missedRounds st \<longrightarrow>
                 missedRounds (checkActiveSearch config env st) = 0))"
proof -
  note fr = selectSearchKeyword_frame [OF sel]
  note unf = performActiveSearch_unfold [OF sv sel kw res none]
  have empty: "results = [] \<longrightarrow>
            \<not> fst (performActiveSearch config env st)
          \<and> managerQueue (snd (performActiveSearch config env st)) = managerQueue st
          \<and> playerTasks (snd (performActiveSearch config env st)) = playerTasks st
          \<and> playVideo_calls (snd (performActiveSearch config env st)) = playVideo_calls st
          \<and> historyService (snd (performActiveSearch config env st)) = historyService st"
    by (simp add: unf fr managerQueue_def playerTasks_def)
  have success: "fst (performActiveSearch config env st)" if "results = firstVideo # rest"
    for firstVideo rest
    using that by (simp add: unf split: option.splits)
  have sim: "managerQueue (snd (performActiveSearch config env st)) =
                   spm_videoQueue m
                   @ (if hasWatched (historyService st) (id_str firstVideo)
                         \<or> id_str firstVideo \<in> set (queue_ids m)
                      then [] else [(firstVideo, Search)])
               \<and> playerTasks (snd (performActiveSearch config env st)) = playerTasks st
               \<and> playVideo_calls (snd (performActiveSearch config env st)) = playVideo_calls st"
    if "results = firstVideo # rest" "simulatedPlaybackManager st = Some m"
    for firstVideo rest m
    using that
    by (simp add: unf fr managerQueue_def playerTasks_def spm_addToQueue_queue)
  have conc: "playerTasks (snd (performActiveSearch config env st)) =
                   taskQueue cp
                   @ [\<lparr>task_id = taskIdCounter cp + 1, task_video = firstVideo,
                       task_matchedKeywords =
                         getVideoMatchedKeywords (matcher config) firstVideo [kw],
                       task_source = Search, task_status = Pending, task_startTime = None,
                       task_duration = None, task_playerId = None\<rparr>]
               \<and> playVideo_calls (snd (performActiveSearch config env st)) = playVideo_calls st"
    if "results = firstVideo # rest" "simulatedPlaybackManager st = None"
       "concurrentPlayer st = Some cp"
    for firstVideo rest cp
    using that
    by (simp add: unf fr playerTasks_def cp_addToQueue_def)
  have single: "playVideo_calls (snd (performActiveSearch config env st)) =
                   playVideo_calls st @ [firstVideo]
               \<and> historyService (snd (performActiveSearch config env st)) =
                   (if isl (playVideo_result env (length (playVideo_calls st)) firstVideo)
                       \<and> elapsed_ms env (length (playVideo_calls st)) \<le> 1000
                    then historyService st
                    else recordWatch (clock_timestamp env) firstVideo
                           (elapsed_ms env (length (playVideo_calls st))) [kw] Search
                           (sessionId st) None (historyService st))"
    if "results = firstVideo # rest" "simulatedPlaybackManager st = None"
       "concurrentPlayer st = None"
    for firstVideo rest
    using that kw
    by (auto simp: unf fr playTargetVideo_def Let_def isl_def split: sum.splits)
  have reset: "missedRounds (checkActiveSearch config env st) = 0"
    if "results = firstVideo # rest" "enableActiveSearch config"
       "js_or (activeSearchThreshold config) 10 \<le> missedRounds st"
    for firstVideo rest
    using that success [OF that(1)] by (simp add: checkActiveSearch_missedRounds)
  have nonempty: "\<forall>firstVideo rest. results = firstVideo # rest \<longrightarrow>
            fst (performActiveSearch config env st)
          \<and> (\<forall>m. simulatedPlaybackManager st = Some m \<longrightarrow>
                 managerQueue (snd (performActiveSearch config env st)) =
                   spm_videoQueue m
                   @ (if hasWatched (historyService st) (id_str firstVideo)
                         \<or> id_str firstVideo \<in> set (queue_ids m)
                      then [] else [(firstVideo, Search)])
               \<and> playerTasks (snd (performActiveSearch config env st)) = playerTasks st
               \<and> playVideo_calls (snd (performActiveSearch config env st)) = playVideo_calls st)
          \<and> (\<forall>cp. simulatedPlaybackManager st = None \<and> concurrentPlayer st = Some cp \<longrightarrow>
                 playerTasks (snd (performActiveSearch config env st)) =
                   taskQueue cp
                   @ [\<lparr>task_id = taskIdCounter cp + 1, task_video = firstVideo,
                       task_matchedKeywords =
                         getVideoMatchedKeywords (matcher config) firstVideo [kw],
                       task_source = Search, task_status = Pending, task_startTime = None,
                       task_duration = None, task_playerId = None\<rparr>]
               \<and> playVideo_calls (snd (performActiveSearch config env st)) = playVideo_calls st)
          \<and> (simulatedPlaybackManager st = None \<and> concurrentPlayer st = None \<longrightarrow>
                 playVideo_calls (snd (performActiveSearch config env st)) =
                   playVideo_calls st @ [firstVideo]
               \<and> historyService (snd (performActiveSearch config env st)) =
                   (if isl (playVideo_result env (length (playVideo_calls st)) firstVideo)
                       \<and> elapsed_ms env (length (playVideo_calls st)) \<le> 1000
                    then historyService st
                    else recordWatch (clock_timestamp env) firstVideo
                           (elapsed_ms env (length (playVideo_calls st))) [kw] Search
                           (sessionId st) None (historyService st)))
          \<and> (enableActiveSearch config
                \<and> js_or (activeSearchThreshold config) 10 \<le> missedRounds st \<longrightarrow>
                 missedRounds (checkActiveSearch config env st) = 0)"
  proof (intro allI impI)
    fix firstVideo rest
    assume r: "results = firstVideo # rest"
    note a = success [OF r]
    have b: "\<forall>m. simulatedPlaybackManager st = Some m \<longrightarrow>
                 managerQueue (snd (performActiveSearch config env st)) =
                   spm_videoQueue m
                   @ (if hasWatched (historyService st) (id_str firstVideo)
                         \<or> id_str firstVideo \<in> set (queue_ids m)
                      then [] else [(firstVideo, Search)])
               \<and> playerTasks (snd (performActiveSearch config env st)) = playerTasks st
               \<and> playVideo_calls (snd (performActiveSearch config env st)) = playVideo_calls st"
      using sim [OF r] by (intro allI impI)
    have c: "\<forall>cp. simulatedPlaybackManager st = None \<and> concurrentPlayer st = Some cp \<longrightarrow>
                 playerTasks (snd (performActiveSearch config env st)) =
                   taskQueue cp
                   @ [\<lparr>task_id = taskIdCounter cp + 1, task_video = firstVideo,
                       task_matchedKeywords =
                         getVideoMatchedKeywords (matcher config) firstVideo [kw],
                       task_source = Search, task_status = Pending, task_startTime = None,
                       task_duration = None, task_playerId = None\<rparr>]
               \<and> playVideo_calls (snd (performActiveSearch config env st)) = playVideo_calls st"
    proof (intro allI impI)
      fix cp
      assume "simulatedPlaybackManager st = None \<and> concurrentPlayer st = Some cp"
      then show "playerTasks (snd (performActiveSearch config env st)) =
                   taskQueue cp
                   @ [\<lparr>task_id = taskIdCounter cp + 1, task_video = firstVideo,
                       task_matchedKeywords =
                         getVideoMatchedKeywords (matcher config) firstVideo [kw],
                       task_source = Search, task_status = Pending, task_startTime = None,
                       task_duration = None, task_playerId = None\<rparr>]
               \<and> playVideo_calls (snd (performActiveSearch config env st)) = playVideo_calls st"
        using conc [OF r, of cp] by (elim conjE)
    qed
    have d: "simulatedPlaybackManager st = None \<and> concurrentPlayer st = None \<longrightarrow>
                 playVideo_calls (snd (performActiveSearch config env st)) =
                   playVideo_calls st @ [firstVideo]
               \<and> historyService (snd (performActiveSearch config env st)) =
                   (if isl (playVideo_result env (length (playVideo_calls st)) firstVideo)
                       \<and> elapsed_ms env (length (playVideo_calls st)) \<le> 1000
                    then historyService st
                    else recordWatch (clock_timestamp env) firstVideo
                           (elapsed_ms env (length (playVideo_calls st))) [kw] Search
                           (sessionId st) None (historyService st))"
    proof (intro impI)
      assume "simulatedPlaybackManager st = None \<and> concurrentPlayer st = None"
      then show "playVideo_calls (snd (performActiveSearch config env st)) =
                   playVideo_calls st @ [firstVideo]
               \<and> historyService (snd (performActiveSearch config env st)) =
                   (if isl (playVideo_result env (length (playVideo_calls st)) firstVideo)
                       \<and> elapsed_ms env (length (playVideo_calls st)) \<le> 1000
                    then historyService st
                    else recordWatch (clock_timestamp env) firstVideo
                           (elapsed_ms env (length (playVideo_calls st))) [kw] Search
                           (sessionId st) None (historyService st))"
        using single [OF r] by (elim conjE)
    qed
    have e: "enableActiveSearch config
                \<and> js_or (activeSearchThreshold config) 10 \<le> missedRounds st \<longrightarrow>
                 missedRounds (checkActiveSearch config env st) = 0"
    proof (intro impI)
      assume "enableActiveSearch config
                \<and> js_or (activeSearchThreshold config) 10 \<le> missedRounds st"
      then show "missedRounds (checkActiveSearch config env st) = 0"
        using reset [OF r] by (elim conjE)
    qed
    from a b c d e
    show "fst (performActiveSearch config env st)
          \<and> (\<forall>m. simulatedPlaybackManager st = Some m \<longrightarrow>
                 managerQueue (snd (performActiveSearch config env st)) =
                   spm_videoQueue m
                   @ (if hasWatched (historyService st) (id_str firstVideo)
                         \<or> id_str firstVideo \<in> set (queue_ids m)
                      then [] else [(firstVideo, Search)])
               \<and> playerTasks (snd (performActiveSearch config env st)) = playerTasks st
               \<and> playVideo_calls (snd (performActiveSearch config env st)) = playVideo_calls st)
          \<and> (\<forall>cp. simulatedPlaybackManager st = None \<and> concurrentPlayer st = Some cp \<longrightarrow>
                 playerTasks (snd (performActiveSearch config env st)) =
                   taskQueue cp
                   @ [\<lparr>task_id = taskIdCounter cp + 1, task_video = firstVideo,
                       task_matchedKeywords =
                         getVideoMatchedKeywords (matcher config) firstVideo [kw],
                       task_source = Search, task_status = Pending, task_startTime = None,
                       task_duration = None, task_playerId = None\<rparr>]
               \<and> playVideo_calls (snd (performActiveSearch config env st)) = playVideo_calls st)
          \<and> (simulatedPlaybackManager st = None \<and> concurrentPlayer st = None \<longrightarrow>
                 playVideo_calls (snd (performActiveSearch config env st)) =
                   playVideo_calls st @ [firstVideo]
               \<and> historyService (snd (performActiveSearch config env st)) =
                   (if isl (playVideo_result env (length (playVideo_calls st)) firstVideo)
                       \<and> elapsed_ms env (length (playVideo_calls st)) \<le> 1000
                    then historyService st
                    else recordWatch (clock_timestamp env) firstVideo
                           (elapsed_ms env (length (playVideo_calls st))) [kw] Search
                           (sessionId st) None (historyService st)))
          \<and> (enableActiveSearch config
                \<and> js_or (activeSearchThreshold config) 10 \<le> missedRounds st \<longrightarrow>
                 missedRounds (checkActiveSearch config env st) = 0)"
      by (intro conjI)
  qed
  from empty nonempty show ?thesis by (rule conjI)
qed

text \<open>
  The theorem at a concrete input, simulated mode with an empty history: the search for
  \<open>cat\<close> returns one video that does not match; it is queued with source \<open>search\<close>,
  the search succeeds and the counter is reset.
\<close>

theorem performActiveSearch_no_match_witness:
  "searchVideos (platform_env [] [video_of ''BV9'' ''Dog Show''])
     = Some (\<lambda>kw. Inr [video_of ''BV9'' ''Dog Show''])
   \<and> selectSearchKeyword simulated_config (platform_env [] [video_of ''BV9'' ''Dog Show''])
        (simulated_feeder empty_history 10)
     = (Some ''cat'', (simulated_feeder empty_history 10)\<lparr>keywordIndex := 1\<rparr>)
   \<and> ''cat'' \<noteq> []
   \<and> filter (match (matcher simulated_config)) [video_of ''BV9'' ''Dog Show''] = []
   \<and> fst (performActiveSearch simulated_config (platform_env [] [video_of ''BV9'' ''Dog Show''])
            (simulated_feeder empty_history 10))
   \<and> managerQueue (snd (performActiveSearch simulated_config
                          (platform_env [] [video_of ''BV9'' ''Dog Show''])
                          (simulated_feeder empty_history 10)))
       = [(video_of ''BV9'' ''Dog Show'', Search)]
   \<and> missedRounds (checkActiveSearch simulated_config
                     (platform_env [] [video_of ''BV9'' ''Dog Show''])
                     (simulated_feeder empty_history 10)) = 0"
proof -
  let ?dog = "video_of ''BV9'' ''Dog Show''"
  let ?env = "platform_env [] [?dog]"
  let ?st = "simulated_feeder empty_history 10"
  have sv: "searchVideos ?env = Some (\<lambda>kw. Inr [?dog])"
    by (simp add: platform_env_def)
  have sel: "selectSearchKeyword simulated_config ?env ?st
               = (Some ''cat'', ?st\<lparr>keywordIndex := 1\<rparr>)"
    by (simp add: selectSearchKeyword_def simulated_config_def example_config_def
          cat_matcher_def nth_opt_def simulated_feeder_def single_feeder_def Let_def)
  have kw: "''cat'' \<noteq> []" by simp
  have res: "(\<lambda>kw. Inr [?dog]) ''cat'' = (Inr [?dog] :: error + VideoInfo list)" by simp
  have none: "filter (match (matcher simulated_config)) [?dog] = []"
    by (simp add: simulated_config_def example_config_def cat_matcher_def match_def
          performMatching_def prepareTextForMatching_def video_of_def toLowerCase_def)
  have mode: "simulatedPlaybackManager ?st = Some example_manager"
    by (simp add: simulated_feeder_def single_feeder_def)
  have fresh: "\<not> hasWatched (historyService ?st) (id_str ?dog)"
              "id_str ?dog \<notin> set (queue_ids example_manager)"
              "spm_videoQueue example_manager = []"
    by (simp_all add: simulated_feeder_def single_feeder_def empty_history_def hasWatched_def
          queue_ids_def example_manager_eval)
  have thr: "enableActiveSearch simulated_config"
            "js_or (activeSearchThreshold simulated_config) 10 \<le> missedRounds ?st"
    by (simp_all add: simulated_config_def example_config_def js_or_def simulated_feeder_def
          single_feeder_def)
  note t = performActiveSearch_no_match [OF sv sel kw res none]
  from t have ok: "fst (performActiveSearch simulated_config ?env ?st)" by blast
  from t mode fresh have q: "managerQueue (snd (performActiveSearch simulated_config ?env ?st))
       = [(?dog, Search)]" by simp
  from t thr have z: "missedRounds (checkActiveSearch simulated_config ?env ?st) = 0" by blast
  from sv sel kw none ok q z show ?thesis by (intro conjI)
qed

section \<open>Failed worker tasks\<close>

lemma find_pending_Some:
  "find_pending ts = Some i \<Longrightarrow> i < length ts \<and> task_status (ts ! i) = Pending"
proof (induction ts arbitrary: i)
  case Nil
  then show ?case by simp
next
  case (Cons t ts)
  then show ?case
    by (cases "task_status t = Pending") (auto simp: nth_Cons split: nat.splits)
qed

lemma executeTask_failed:
  assumes "play_result env = Inl e"
      and "i < length (taskQueue cp)"
  shows "fst (executeTask sid env p i (hs, cp)) =
           (if endTime env - startTime env > 1000
            then recordWatch (timestamp env) (task_video (taskQueue cp ! i))
                   (endTime env - startTime env) (task_matchedKeywords (taskQueue cp ! i))
                   (task_source (taskQueue cp ! i)) sid None hs
            else hs)"
    and "taskQueue (snd (executeTask sid env p i (hs, cp))) =
           (taskQueue cp)[i := (taskQueue cp ! i)
              \<lparr>task_playerId := Some (player_id (players cp ! p)),
               task_startTime := Some (startTime env),
               task_duration := Some (endTime env - startTime env),
               task_status := Failed\<rparr>]"
    and "completedTasks (snd (executeTask sid env p i (hs, cp))) =
           completedTasks cp @ [taskQueue (snd (executeTask sid env p i (hs, cp))) ! i]"
  using assms
  by (simp_all add: executeTask_def update_task_def set_player_def Let_def)

text \<open>
  The threshold on the paths that have one. For a task run by
  \<open>ConcurrentPlayer.executeTask\<close> whose playback throws:
  \<open>recordWatch\<close> is called exactly when the elapsed time exceeds 1000 ms, so the history
  file is left as it is at or below the threshold and (the append not failing) is written
  to above it; the task is marked failed and pushed to the completed tasks once; no other task
  is touched and none is added, and a failed task is not pending, so \<open>getNextTask\<close> never
  hands it out again. For \<open>AlgorithmFeeder.playTargetVideo\<close> whose \<open>playVideo\<close> throws:
  the session is recorded exactly when the elapsed time exceeds 1000 ms, the video is played
  once and not put back into the feeder's queue. Both functions return a state: the
  exception ends in their \<open>catch\<close>.
\<close>

lemma failed_task_recorded_iff_over_threshold:
  assumes "play_result env = Inl e"
      and "i < length (taskQueue cp)"
      and "playVideo_result penv (length (playVideo_calls st)) video = Inl e'"
  shows "fst (executeTask sid env p i (hs, cp)) =
           (if endTime env - startTime env > 1000
            then recordWatch (timestamp env) (task_video (taskQueue cp ! i))
                   (endTime env - startTime env) (task_matchedKeywords (taskQueue cp ! i))
                   (task_source (taskQueue cp ! i)) sid None hs
            else hs)
       \<and> (\<not> appendFails hs \<longrightarrow>
            (historyFile (fst (executeTask sid env p i (hs, cp))) \<noteq> historyFile hs)
              = (endTime env - startTime env > 1000))
       \<and> task_status (taskQueue (snd (executeTask sid env p i (hs, cp))) ! i) = Failed
       \<and> completedTasks (snd (executeTask sid env p i (hs, cp))) =
           completedTasks cp @ [taskQueue (snd (executeTask sid env p i (hs, cp))) ! i]
       \<and> length (taskQueue (snd (executeTask sid env p i (hs, cp)))) = length (taskQueue cp)
       \<and> (\<forall>j. j \<noteq> i \<longrightarrow>
            taskQueue (snd (executeTask sid env p i (hs, cp))) ! j = taskQueue cp ! j)
       \<and> find_pending (taskQueue (snd (executeTask sid env p i (hs, cp)))) \<noteq> Some i
       \<and> historyService (playTargetVideo config penv video searchKeyword source st) =
           (if elapsed_ms penv (length (playVideo_calls st)) > 1000
            then recordWatch (clock_timestamp penv) video
                   (elapsed_ms penv (length (playVideo_calls st)))
                   (case searchKeyword of
                      None \<Rightarrow> getMatchedKeywords config video
                    | Some kw \<Rightarrow> if kw = [] then getMatchedKeywords config video else [kw])
                   source (sessionId st) None (historyService st)
            else historyService st)
       \<and> playVideo_calls (playTargetVideo config penv video searchKeyword source st) =
           playVideo_calls st @ [video]
       \<and> videoQueue (playTargetVideo config penv video searchKeyword source st) = videoQueue st"
proof -
  note ex = executeTask_failed [OF assms(1,2), of sid p hs]
  have status: "task_status (taskQueue (snd (executeTask sid env p i (hs, cp))) ! i) = Failed"
    using assms(2) by (simp add: ex(2))
  have grows: "\<not> appendFails hs \<longrightarrow>
            (historyFile (fst (executeTask sid env p i (hs, cp))) \<noteq> historyFile hs)
              = (endTime env - startTime env > 1000)"
    by (auto simp: ex(1) recordWatch_def appendRecord_changes Let_def split: option.splits)
  have len: "length (taskQueue (snd (executeTask sid env p i (hs, cp)))) = length (taskQueue cp)"
    by (simp add: ex(2))
  have others: "\<forall>j. j \<noteq> i \<longrightarrow>
            taskQueue (snd (executeTask sid env p i (hs, cp))) ! j = taskQueue cp ! j"
    by (simp add: ex(2))
  have never: "find_pending (taskQueue (snd (executeTask sid env p i (hs, cp)))) \<noteq> Some i"
    using status find_pending_Some by fastforce
  have play: "historyService (playTargetVideo config penv video searchKeyword source st) =
           (if elapsed_ms penv (length (playVideo_calls st)) > 1000
            then recordWatch (clock_timestamp penv) video
                   (elapsed_ms penv (length (playVideo_calls st)))
                   (case searchKeyword of
                      None \<Rightarrow> getMatchedKeywords config video
                    | Some kw \<Rightarrow> if kw = [] then getMatchedKeywords config video else [kw])
                   source (sessionId st) None (historyService st)
            else historyService st)"
       "playVideo_calls (playTargetVideo config penv video searchKeyword source st) =
           playVideo_calls st @ [video]"
       "videoQueue (playTargetVideo config penv video searchKeyword source st) = videoQueue st"
    using assms(3) by (simp_all add: playTargetVideo_def Let_def)
  from ex(1) grows status ex(3) len others never play show ?thesis by (intro conjI)
qed

text \<open>
  At concrete inputs: a playback of \<open>BV1\<close> that throws after 2000 ms is
  recorded by \<open>executeTask\<close> and the task is failed; one that throws after 500 ms is not
  recorded, by \<open>executeTask\<close> and by \<open>playTargetVideo\<close> alike.
\<close>

lemma failed_task_recorded_iff_over_threshold_example:
  "play_result (failing_task_env 2000) = Inl (Error ''navigation timeout'')
   \<and> play_result (failing_task_env 500) = Inl (Error ''navigation timeout'')
   \<and> 0 < length (taskQueue example_player)
   \<and> playVideo_result (failing_platform_env 500)
        (length (playVideo_calls (single_feeder empty_history 0)))
        (video_of ''BV1'' ''Cat Rescue'') = Inl (Error ''navigation timeout'')
   \<and> hasWatched (fst (executeTask ''session-1'' (failing_task_env 2000) 0 0
                        (empty_history, example_player))) ''BV1''
   \<and> task_status (taskQueue (snd (executeTask ''session-1'' (failing_task_env 2000) 0 0
                                     (empty_history, example_player))) ! 0) = Failed
   \<and> fst (executeTask ''session-1'' (failing_task_env 500) 0 0
            (empty_history, example_player)) = empty_history
   \<and> historyService (playTargetVideo example_config (failing_platform_env 500)
                        (video_of ''BV1'' ''Cat Rescue'') None Home
                        (single_feeder empty_history 0)) = empty_history"
proof -
  have f1: "play_result (failing_task_env 2000) = Inl (Error ''navigation timeout'')"
   and f2: "play_result (failing_task_env 500) = Inl (Error ''navigation timeout'')"
    by (simp_all add: failing_task_env_def)
  have rng: "0 < length (taskQueue example_player)"
    by (simp add: example_player_def)
  have f3: "playVideo_result (failing_platform_env 500)
        (length (playVideo_calls (single_feeder empty_history 0)))
        (video_of ''BV1'' ''Cat Rescue'') = Inl (Error ''navigation timeout'')"
    by (simp add: failing_platform_env_def platform_env_def)
  note long = failed_task_recorded_iff_over_threshold [OF f1 rng f3,
      of "''session-1''" 0 empty_history example_config None Home]
  note short = failed_task_recorded_iff_over_threshold [OF f2 rng f3,
      of "''session-1''" 0 empty_history example_config None Home]
  from long
  have a: "hasWatched (fst (executeTask ''session-1'' (failing_task_env 2000) 0 0
                        (empty_history, example_player))) ''BV1''"
    by (simp add: failing_task_env_def example_player_def recordWatch_def appendRecord_def
          watchRecord_def
          empty_history_def hasWatched_def video_of_def)
  from long
  have b: "task_status (taskQueue (snd (executeTask ''session-1'' (failing_task_env 2000) 0 0
                                     (empty_history, example_player))) ! 0) = Failed"
    by (elim conjE)
  from short
  have c: "fst (executeTask ''session-1'' (failing_task_env 500) 0 0
            (empty_history, example_player)) = empty_history"
    by (simp add: failing_task_env_def)
  from short
  have d: "historyService (playTargetVideo example_config (failing_platform_env 500)
                        (video_of ''BV1'' ''Cat Rescue'') None Home
                        (single_feeder empty_history 0)) = empty_history"
    by (simp add: failing_platform_env_def platform_env_def single_feeder_def)
  from f1 f2 rng f3 a b c d show ?thesis by (intro conjI)
qed

text \<open>
  C8. For every worker task whose telemetry sequence aborts, a session is claimed to be
  recorded only if more than 1000 ms have elapsed, and dropped otherwise. The worker of the
  simulated playback manager, the one that runs the telemetry sequence, has no such
  threshold: the simulator turns the abort into the value 0 instead of throwing, so the
  \<open>catch\<close> of \<open>processVideoWithSource\<close> (which records nothing) is never reached and the
  session is recorded. A sequence for \<open>BV1\<close> that aborts after 600 ms leaves \<open>BV1\<close>
  recorded as watched, while \<open>executeTask\<close> on a playback that throws after the same
  600 ms leaves the history as it was.
\<close>

theorem processVideoWithSource_records_aborted_run:
  "isl (simulatePlayback_try (newSimulator 2 5) (playback failing_worker_env) 30)
   \<and> simulatePlayback (newSimulator 2 5) (playback failing_worker_env) 30 = 0
   \<and> w_endTime failing_worker_env - w_startTime failing_worker_env = 600
   \<and> \<not> hasWatched empty_history ''BV1''
   \<and> hasWatched
        (snd (processVideoWithSource cat_matcher failing_worker_env
                (video_of ''BV1'' ''Cat Rescue'') (Some (newSimulator 2 5)) Home
                example_manager empty_history))
        ''BV1''
   \<and> fst (executeTask ''session-1'' (failing_task_env 600) 0 0
            (empty_history, example_player)) = empty_history"
  by (simp add: failing_worker_env_def simulatePlayback_def simulatePlayback_try_def
        processVideoWithSource_def recordWatch_def appendRecord_def watchRecord_def
        empty_history_def hasWatched_def video_of_def executeTask_def failing_task_env_def
        example_player_def update_task_def set_player_def Let_def)

end
